theory Spec2Isabelle
  imports Complex_Main
begin

section \<open>Values shared by commands, controller and mission\<close>

text \<open>
  JavaScript numbers are modelled as \<open>real\<close>: the arithmetic of the source is read as exact
  arithmetic, \<open>Math.sqrt\<close> as \<open>sqrt\<close>, \<open>Math.abs\<close> as \<open>abs\<close>, \<open>Math.max\<close> as \<open>max\<close>.
  \<open>null\<close> and \<open>undefined\<close> are \<open>None\<close>. The clock \<open>performance.now()\<close> is an explicit
  argument \<open>now\<close> of every operation that reads it; an operation reads it once, so a
  command started and updated within one tick sees the same time in both.
\<close>

record vec3 =
  pos_x :: real
  pos_y :: real
  pos_z :: real

text \<open>The motion instruction \<open>{ hover, angle, speed, altitude }\<close>.\<close>

record movement_cmd =
  hover :: bool
  angle :: real
  speed :: real
  altitude :: "real option"

text \<open>\<open>new Error(message)\<close>.\<close>

datatype js_error = Error string

text \<open>\<open>Math.atan2(y, x)\<close> on finite arguments.\<close>

definition atan2 :: "real \<Rightarrow> real \<Rightarrow> real" where
  "atan2 b a =
     (if 0 < a then arctan (b / a)
      else if a < 0 \<and> 0 \<le> b then arctan (b / a) + pi
      else if a < 0 then arctan (b / a) - pi
      else if 0 < b then pi / 2
      else if b < 0 then - (pi / 2)
      else 0)"

section \<open>commands.js\<close>

subsection \<open>DEFAULT_CONFIG and options\<close>

record config =
  cfg_maxSpeed :: real
  cfg_minSpeed :: real
  cfg_positionTolerance :: real
  cfg_altitudeTolerance :: real
  cfg_defaultAltitude :: real
  cfg_groundAltitude :: real
  cfg_timeoutMs :: real
  cfg_slowdownDistance :: real

definition DEFAULT_CONFIG :: config where
  "DEFAULT_CONFIG =
     \<lparr>cfg_maxSpeed = 2 / 10, cfg_minSpeed = 5 / 100, cfg_positionTolerance = 8 / 100,
      cfg_altitudeTolerance = 5 / 100, cfg_defaultAltitude = 1, cfg_groundAltitude = 5 / 100,
      cfg_timeoutMs = 30000, cfg_slowdownDistance = 3 / 10\<rparr>"

text \<open>The \<open>options\<close> object of a command; an absent key is \<open>None\<close>.\<close>

record options =
  opt_timeoutMs :: "real option"
  opt_maxSpeed :: "real option"
  opt_minSpeed :: "real option"
  opt_positionTolerance :: "real option"
  opt_altitudeTolerance :: "real option"
  opt_slowdownDistance :: "real option"
  opt_groundAltitude :: "real option"

definition no_options :: options where
  "no_options =
     \<lparr>opt_timeoutMs = None, opt_maxSpeed = None, opt_minSpeed = None,
      opt_positionTolerance = None, opt_altitudeTolerance = None,
      opt_slowdownDistance = None, opt_groundAltitude = None\<rparr>"

text \<open>The operator \<open>a ?? b\<close>.\<close>

definition nullish :: "'a option \<Rightarrow> 'a \<Rightarrow> 'a" where
  "nullish a b = (case a of None \<Rightarrow> b | Some v \<Rightarrow> v)"

text \<open>A number used in arithmetic: \<open>null\<close> coerces to 0.\<close>

definition num :: "real option \<Rightarrow> real" where
  "num a = (case a of None \<Rightarrow> 0 | Some v \<Rightarrow> v)"

subsection \<open>Command objects\<close>

text \<open>The target of a MoveTo command; \<open>tgt_y = None\<close> is "keep the current altitude".\<close>

record target =
  tgt_x :: real
  tgt_y :: "real option"
  tgt_z :: real

text \<open>The argument \<open>{ x?, y?, z? }\<close> of \<open>moveTo\<close>.\<close>

record target_arg =
  arg_x :: "real option"
  arg_y :: "real option"
  arg_z :: "real option"

text \<open>The values the commands resolve their promise with.\<close>

datatype cmd_result =
    NullResult
  | HoverResult vec3
  | TakeOffResult real real
  | LandResult real
  | MoveToResult vec3 target
  | RotateYawResult real

datatype 'r settlement = Resolved 'r | Rejected js_error

text \<open>
  The promise of a command is shared with the caller of the controller's API, so promises
  live in a store: a promise is a reference \<open>nat\<close>, the store maps it to \<open>None\<close> while it is
  pending and to its settlement afterwards. \<open>_resolve\<close> and \<open>_reject\<close> are the native
  resolving functions of a promise: they act on a pending promise only.
\<close>

type_synonym promises = "nat \<Rightarrow> cmd_result settlement option"

definition resolve_promise :: "nat \<Rightarrow> cmd_result \<Rightarrow> promises \<Rightarrow> promises" where
  "resolve_promise p r P = (case P p of None \<Rightarrow> P(p := Some (Resolved r)) | Some _ \<Rightarrow> P)"

definition reject_promise :: "nat \<Rightarrow> js_error \<Rightarrow> promises \<Rightarrow> promises" where
  "reject_promise p e P = (case P p of None \<Rightarrow> P(p := Some (Rejected e)) | Some _ \<Rightarrow> P)"

text \<open>The fields of MoveToCommand.\<close>

record move_to =
  mt_target :: target
  mt_maxSpeed :: real
  mt_minSpeed :: real
  mt_positionTolerance :: real
  mt_altitudeTolerance :: real
  mt_slowdownDistance :: real
  mt_stableFrames :: nat

text \<open>
  The five subclasses of BaseCommand with their own fields:
  HoverCommand (targetAltitude, undefined before start),
  TakeOffCommand (targetAltitude, altitudeTolerance, stableFrames, lastAltitude),
  LandCommand (groundAltitude, altitudeTolerance, stableFrames),
  MoveToCommand, RotateYawCommand (targetAngle).
\<close>

datatype variant =
    HoverCommand "real option"
  | TakeOffCommand real real nat "real option"
  | LandCommand real real nat
  | MoveToCommand move_to
  | RotateYawCommand real

record command =
  startTime :: "real option"
  timeoutMs :: real
  completed :: bool
  error :: "js_error option"
  promise :: nat
  variant :: variant

text \<open>The snapshot \<open>getState()\<close> passes to \<open>start\<close> and \<open>update\<close>.\<close>

datatype controller_state = IDLE | RUNNING | PAUSED

record drone_state =
  position :: vec3
  isActive :: bool
  queueLength :: nat
  ds_state :: controller_state
  ds_currentCommand :: "string option"
  headingRad :: real

subsection \<open>BaseCommand\<close>

text \<open>The constructor; \<open>p\<close> is the fresh promise created by \<open>new Promise\<close>.\<close>

definition BaseCommand :: "options \<Rightarrow> nat \<Rightarrow> variant \<Rightarrow> command" where
  "BaseCommand opts p v =
     \<lparr>startTime = None, timeoutMs = nullish (opt_timeoutMs opts) (cfg_timeoutMs DEFAULT_CONFIG),
      completed = False, error = None, promise = p, variant = v\<rparr>"

definition BaseCommand_start :: "real \<Rightarrow> command \<Rightarrow> command" where
  "BaseCommand_start now c = c\<lparr>startTime := Some now\<rparr>"

definition BaseCommand_complete :: "cmd_result \<Rightarrow> command \<Rightarrow> promises \<Rightarrow> command \<times> promises" where
  "BaseCommand_complete r c P =
     (if completed c then (c, P)
      else (c\<lparr>completed := True\<rparr>, resolve_promise (promise c) r P))"

definition BaseCommand_fail :: "js_error \<Rightarrow> command \<Rightarrow> promises \<Rightarrow> command \<times> promises" where
  "BaseCommand_fail e c P =
     (if completed c then (c, P)
      else (c\<lparr>completed := True, error := Some e\<rparr>, reject_promise (promise c) e P))"

definition BaseCommand_cancel :: "command \<Rightarrow> promises \<Rightarrow> command \<times> promises" where
  "BaseCommand_cancel c P = BaseCommand_fail (Error ''Command cancelled'') c P"

text \<open>\<open>this.startTime && ...\<close>: a start time that is \<open>null\<close> or 0 is falsy.\<close>

definition truthy_time :: "real option \<Rightarrow> bool" where
  "truthy_time t = (case t of None \<Rightarrow> False | Some v \<Rightarrow> v \<noteq> 0)"

definition timed_out :: "real \<Rightarrow> command \<Rightarrow> bool" where
  "timed_out now c = (truthy_time (startTime c) \<and> now - num (startTime c) > timeoutMs c)"

text \<open>
  \<open>BaseCommand.update\<close>: the timeout check, and the hover instruction it returns
  (which the subclasses discard).
\<close>

definition BaseCommand_update ::
  "real \<Rightarrow> drone_state \<Rightarrow> command \<Rightarrow> promises \<Rightarrow> movement_cmd \<times> command \<times> promises" where
  "BaseCommand_update now ds c P =
     (let (c1, P1) = (if timed_out now c then BaseCommand_fail (Error ''Command timeout'') c P else (c, P))
      in (\<lparr>hover = True, angle = 0, speed = 0, altitude = Some (pos_y (position ds))\<rparr>, c1, P1))"

text \<open>The three calls that try to settle a command.\<close>

datatype settle_call = Complete cmd_result | Fail js_error | Cancel

definition settle :: "settle_call \<Rightarrow> command \<times> promises \<Rightarrow> command \<times> promises" where
  "settle k cP =
     (case k of
        Complete r \<Rightarrow> BaseCommand_complete r (fst cP) (snd cP)
      | Fail e \<Rightarrow> BaseCommand_fail e (fst cP) (snd cP)
      | Cancel \<Rightarrow> BaseCommand_cancel (fst cP) (snd cP))"

subsection \<open>The constructors of the five commands\<close>

definition new_HoverCommand :: "options \<Rightarrow> nat \<Rightarrow> command" where
  "new_HoverCommand opts p = BaseCommand opts p (HoverCommand None)"

definition new_TakeOffCommand :: "real option \<Rightarrow> options \<Rightarrow> nat \<Rightarrow> command" where
  "new_TakeOffCommand alt opts p =
     BaseCommand opts p
       (TakeOffCommand (nullish alt (cfg_defaultAltitude DEFAULT_CONFIG))
          (nullish (opt_altitudeTolerance opts) (cfg_altitudeTolerance DEFAULT_CONFIG)) 0 None)"

definition new_LandCommand :: "options \<Rightarrow> nat \<Rightarrow> command" where
  "new_LandCommand opts p =
     BaseCommand opts p
       (LandCommand (nullish (opt_groundAltitude opts) (cfg_groundAltitude DEFAULT_CONFIG))
          (nullish (opt_altitudeTolerance opts) (cfg_altitudeTolerance DEFAULT_CONFIG)) 0)"

definition new_MoveToCommand :: "target_arg \<Rightarrow> options \<Rightarrow> nat \<Rightarrow> command" where
  "new_MoveToCommand tgt opts p =
     BaseCommand opts p
       (MoveToCommand
          \<lparr>mt_target = \<lparr>tgt_x = nullish (arg_x tgt) 0, tgt_y = arg_y tgt, tgt_z = nullish (arg_z tgt) 0\<rparr>,
           mt_maxSpeed = nullish (opt_maxSpeed opts) (cfg_maxSpeed DEFAULT_CONFIG),
           mt_minSpeed = nullish (opt_minSpeed opts) (cfg_minSpeed DEFAULT_CONFIG),
           mt_positionTolerance = nullish (opt_positionTolerance opts) (cfg_positionTolerance DEFAULT_CONFIG),
           mt_altitudeTolerance = nullish (opt_altitudeTolerance opts) (cfg_altitudeTolerance DEFAULT_CONFIG),
           mt_slowdownDistance = nullish (opt_slowdownDistance opts) (cfg_slowdownDistance DEFAULT_CONFIG),
           mt_stableFrames = 0\<rparr>)"

definition new_RotateYawCommand :: "real \<Rightarrow> options \<Rightarrow> nat \<Rightarrow> command" where
  "new_RotateYawCommand a opts p = BaseCommand opts p (RotateYawCommand a)"

subsection \<open>start\<close>

definition HoverCommand_start ::
  "real \<Rightarrow> drone_state \<Rightarrow> command \<Rightarrow> promises \<Rightarrow> command \<times> promises" where
  "HoverCommand_start now ds c P =
     (let c1 = BaseCommand_start now c;
          c2 = c1\<lparr>variant := HoverCommand (Some (pos_y (position ds)))\<rparr>
      in BaseCommand_complete (HoverResult (position ds)) c2 P)"

definition TakeOffCommand_start ::
  "real \<Rightarrow> real \<Rightarrow> nat \<Rightarrow> real \<Rightarrow> drone_state \<Rightarrow> command \<Rightarrow> promises \<Rightarrow> command \<times> promises" where
  "TakeOffCommand_start ta tol sf now ds c P =
     (let c1 = BaseCommand_start now c
      in (c1\<lparr>variant := TakeOffCommand ta tol sf (Some (pos_y (position ds)))\<rparr>, P))"

definition LandCommand_start ::
  "real \<Rightarrow> drone_state \<Rightarrow> command \<Rightarrow> promises \<Rightarrow> command \<times> promises" where
  "LandCommand_start now ds c P = (BaseCommand_start now c, P)"

definition MoveToCommand_start ::
  "move_to \<Rightarrow> real \<Rightarrow> drone_state \<Rightarrow> command \<Rightarrow> promises \<Rightarrow> command \<times> promises" where
  "MoveToCommand_start m now ds c P =
     (let c1 = BaseCommand_start now c
      in if tgt_y (mt_target m) = None
         then (c1\<lparr>variant :=
                    MoveToCommand (m\<lparr>mt_target := (mt_target m)\<lparr>tgt_y := Some (pos_y (position ds))\<rparr>\<rparr>)\<rparr>, P)
         else (c1, P))"

definition RotateYawCommand_start ::
  "real \<Rightarrow> real \<Rightarrow> drone_state \<Rightarrow> command \<Rightarrow> promises \<Rightarrow> command \<times> promises" where
  "RotateYawCommand_start a now ds c P =
     (let c1 = BaseCommand_start now c
      in BaseCommand_complete (RotateYawResult a) c1 P)"

text \<open>The call \<open>command.start(droneState)\<close> on one of the five commands.\<close>

definition command_start ::
  "real \<Rightarrow> drone_state \<Rightarrow> command \<Rightarrow> promises \<Rightarrow> command \<times> promises" where
  "command_start now ds c P =
     (case variant c of
        HoverCommand ta \<Rightarrow> HoverCommand_start now ds c P
      | TakeOffCommand ta tol sf la \<Rightarrow> TakeOffCommand_start ta tol sf now ds c P
      | LandCommand ga tol sf \<Rightarrow> LandCommand_start now ds c P
      | MoveToCommand m \<Rightarrow> MoveToCommand_start m now ds c P
      | RotateYawCommand a \<Rightarrow> RotateYawCommand_start a now ds c P)"

subsection \<open>update\<close>

definition HoverCommand_update ::
  "real option \<Rightarrow> real \<Rightarrow> real \<Rightarrow> drone_state \<Rightarrow> command \<Rightarrow> promises
     \<Rightarrow> movement_cmd \<times> command \<times> promises" where
  "HoverCommand_update ta delta now ds c P =
     (let (base, c1, P1) = BaseCommand_update now ds c P
      in (\<lparr>hover = True, angle = 0, speed = 0, altitude = ta\<rparr>, c1, P1))"

definition TakeOffCommand_update ::
  "real \<Rightarrow> real \<Rightarrow> nat \<Rightarrow> real \<Rightarrow> real \<Rightarrow> drone_state \<Rightarrow> command \<Rightarrow> promises
     \<Rightarrow> movement_cmd \<times> command \<times> promises" where
  "TakeOffCommand_update ta tol sf delta now ds c P =
     (let (base, c1, P1) = BaseCommand_update now ds c P;
          currentY = pos_y (position ds);
          diff = \<bar>currentY - ta\<bar>;
          sf' = (if diff < tol then sf + 1 else 0);
          c2 = c1\<lparr>variant := TakeOffCommand ta tol sf' (Some currentY)\<rparr>;
          (c3, P3) = (if diff < tol \<and> 2 \<le> sf'
                      then BaseCommand_complete (TakeOffResult currentY ta) c2 P1
                      else (c2, P1))
      in (\<lparr>hover = True, angle = 0, speed = 0, altitude = Some ta\<rparr>, c3, P3))"

definition LandCommand_update ::
  "real \<Rightarrow> real \<Rightarrow> nat \<Rightarrow> real \<Rightarrow> real \<Rightarrow> drone_state \<Rightarrow> command \<Rightarrow> promises
     \<Rightarrow> movement_cmd \<times> command \<times> promises" where
  "LandCommand_update ga tol sf delta now ds c P =
     (let (base, c1, P1) = BaseCommand_update now ds c P;
          currentY = pos_y (position ds);
          diff = \<bar>currentY - ga\<bar>;
          sf' = (if diff < tol then sf + 1 else 0);
          c2 = c1\<lparr>variant := LandCommand ga tol sf'\<rparr>;
          (c3, P3) = (if diff < tol \<and> 2 \<le> sf'
                      then BaseCommand_complete (LandResult currentY) c2 P1
                      else (c2, P1))
      in (\<lparr>hover = True, angle = 0, speed = 0, altitude = Some ga\<rparr>, c3, P3))"

text \<open>
  The speed of a MoveTo tick that has not arrived: the three zones, then the guard
  against flying past the target. \<open>d\<close> is the horizontal distance.
\<close>

definition zone_speed :: "move_to \<Rightarrow> real \<Rightarrow> real" where
  "zone_speed m d =
     (if d < mt_positionTolerance m * 2 then mt_minSpeed m
      else if d < mt_slowdownDistance m
           then mt_minSpeed m + (mt_maxSpeed m - mt_minSpeed m) * (d / mt_slowdownDistance m)
           else mt_maxSpeed m)"

definition guarded_speed :: "move_to \<Rightarrow> real \<Rightarrow> real \<Rightarrow> real" where
  "guarded_speed m delta d =
     (let speed0 = zone_speed m d;
          frameDistance = speed0 * delta
      in if frameDistance > d \<and> d > mt_positionTolerance m then d / delta * (8 / 10) else speed0)"

definition MoveToCommand_update ::
  "move_to \<Rightarrow> real \<Rightarrow> real \<Rightarrow> drone_state \<Rightarrow> command \<Rightarrow> promises
     \<Rightarrow> movement_cmd \<times> command \<times> promises" where
  "MoveToCommand_update m delta now ds c P =
     (let (base, c1, P1) = BaseCommand_update now ds c P;
          pos = position ds;
          dx = tgt_x (mt_target m) - pos_x pos;
          dz = tgt_z (mt_target m) - pos_z pos;
          dy = num (tgt_y (mt_target m)) - pos_y pos;
          horizontalDist = sqrt (dx * dx + dz * dz);
          altitudeDiff = \<bar>dy\<bar>;
          arrived = (horizontalDist < mt_positionTolerance m \<and> altitudeDiff < mt_altitudeTolerance m);
          sf' = (if arrived then mt_stableFrames m + 1 else 0);
          c2 = c1\<lparr>variant := MoveToCommand (m\<lparr>mt_stableFrames := sf'\<rparr>)\<rparr>
      in if arrived \<and> 2 \<le> sf'
         then (let (c3, P3) = BaseCommand_complete (MoveToResult pos (mt_target m)) c2 P1
               in (\<lparr>hover = True, angle = 0, speed = 0, altitude = tgt_y (mt_target m)\<rparr>, c3, P3))
         else (\<lparr>hover = False, angle = atan2 dz dx,
                 speed = max (guarded_speed m delta horizontalDist) (mt_minSpeed m * (8 / 10)),
                 altitude = tgt_y (mt_target m)\<rparr>, c2, P1))"

text \<open>\<open>RotateYawCommand.update\<close> does not call \<open>super.update\<close>.\<close>

definition RotateYawCommand_update ::
  "real \<Rightarrow> real \<Rightarrow> drone_state \<Rightarrow> command \<Rightarrow> promises \<Rightarrow> movement_cmd \<times> command \<times> promises" where
  "RotateYawCommand_update delta now ds c P =
     (\<lparr>hover = True, angle = 0, speed = 0, altitude = Some (pos_y (position ds))\<rparr>, c, P)"

text \<open>The call \<open>command.update(delta, droneState)\<close> on one of the five commands.\<close>

definition command_update ::
  "real \<Rightarrow> real \<Rightarrow> drone_state \<Rightarrow> command \<Rightarrow> promises \<Rightarrow> movement_cmd \<times> command \<times> promises" where
  "command_update delta now ds c P =
     (case variant c of
        HoverCommand ta \<Rightarrow> HoverCommand_update ta delta now ds c P
      | TakeOffCommand ta tol sf la \<Rightarrow> TakeOffCommand_update ta tol sf delta now ds c P
      | LandCommand ga tol sf \<Rightarrow> LandCommand_update ga tol sf delta now ds c P
      | MoveToCommand m \<Rightarrow> MoveToCommand_update m delta now ds c P
      | RotateYawCommand a \<Rightarrow> RotateYawCommand_update delta now ds c P)"

section \<open>DroneControl.js\<close>

subsection \<open>The controller and what it shares with its environment\<close>

text \<open>
  Modelled from the spec: DroneMovement (DroneMovement.js is not among the sources). The
  controller reads \<open>movement.model?.position\<close> and \<open>movement.currentAngle\<close> and calls
  \<open>movement.setMovementCommand\<close>, the only channel that drives the vehicle: \<open>model\<close> is the
  position of the attached vehicle (\<open>None\<close> when no vehicle is attached) and \<open>mv_command\<close>
  the instruction written last.
\<close>

record movement =
  model :: "vec3 option"
  currentAngle :: "real option"
  mv_command :: "movement_cmd option"

text \<open>
  What the controller tells its observers: the lines it writes with \<open>console.error\<close> and
  the calls of the four optional callbacks.
\<close>

datatype event =
    ConsoleError string js_error
  | OnCommandStart command
  | OnCommandComplete command
  | OnCommandError command js_error
  | OnStateChange controller_state controller_state

text \<open>
  The fields of DroneControl. A callback field says whether the callback is set; a
  callback that is set is recorded in \<open>events\<close> when it is called, and is taken not to
  throw. The promise store and the counter of \<open>new Promise\<close> are the part of the JavaScript heap the
  controller shares with its callers; the commands themselves are reached through the
  controller only. The \<open>debug\<close> flag and \<open>_log\<close> write to the console log only and are left
  out.
\<close>

record control =
  movement :: movement
  state :: controller_state
  currentCommand :: "command option"
  commandQueue :: "command list"
  paused :: bool
  onCommandStart :: bool
  onCommandComplete :: bool
  onCommandError :: bool
  onStateChange :: bool
  promise_store :: promises
  next_promise :: nat
  events :: "event list"

text \<open>The constructor, on a heap with no promise yet.\<close>

definition DroneControl :: "movement \<Rightarrow> control" where
  "DroneControl mv =
     \<lparr>movement = mv, state = IDLE, currentCommand = None, commandQueue = [], paused = False,
      onCommandStart = False, onCommandComplete = False, onCommandError = False,
      onStateChange = False, promise_store = (\<lambda>p. None), next_promise = 0, events = []\<rparr>"

text \<open>\<open>new Promise\<close>: a fresh reference, pending.\<close>

definition new_promise :: "control \<Rightarrow> nat \<times> control" where
  "new_promise s =
     (next_promise s,
      s\<lparr>promise_store := (promise_store s)(next_promise s := None),
        next_promise := Suc (next_promise s)\<rparr>)"

definition emit :: "event \<Rightarrow> control \<Rightarrow> control" where
  "emit ev s = s\<lparr>events := events s @ [ev]\<rparr>"

definition constructor_name :: "variant \<Rightarrow> string" where
  "constructor_name v =
     (case v of
        HoverCommand ta \<Rightarrow> ''HoverCommand''
      | TakeOffCommand ta tol sf la \<Rightarrow> ''TakeOffCommand''
      | LandCommand ga tol sf \<Rightarrow> ''LandCommand''
      | MoveToCommand m \<Rightarrow> ''MoveToCommand''
      | RotateYawCommand a \<Rightarrow> ''RotateYawCommand'')"

definition DroneControl_isActive :: "control \<Rightarrow> bool" where
  "DroneControl_isActive s = (currentCommand s \<noteq> None \<or> 0 < length (commandQueue s))"

definition getState :: "control \<Rightarrow> drone_state" where
  "getState s =
     \<lparr>position = (case model (movement s) of
                     Some pos \<Rightarrow> pos
                   | None \<Rightarrow> \<lparr>pos_x = 0, pos_y = 0, pos_z = 0\<rparr>),
      isActive = DroneControl_isActive s,
      queueLength = length (commandQueue s),
      ds_state = state s,
      ds_currentCommand = map_option (\<lambda>c. constructor_name (variant c)) (currentCommand s),
      headingRad = nullish (currentAngle (movement s)) 0\<rparr>"

definition setMovementCommand :: "movement_cmd \<Rightarrow> control \<Rightarrow> control" where
  "setMovementCommand mc s = s\<lparr>movement := (movement s)\<lparr>mv_command := Some mc\<rparr>\<rparr>"

definition setState :: "controller_state \<Rightarrow> control \<Rightarrow> control" where
  "setState newState s =
     (if state s \<noteq> newState
      then (let oldState = state s;
                s1 = s\<lparr>state := newState\<rparr>
            in if onStateChange s1 then emit (OnStateChange newState oldState) s1 else s1)
      else s)"

definition notify_complete :: "command \<Rightarrow> control \<Rightarrow> control" where
  "notify_complete c s = (if onCommandComplete s then emit (OnCommandComplete c) s else s)"

definition notify_error :: "command \<Rightarrow> js_error \<Rightarrow> control \<Rightarrow> control" where
  "notify_error c e s =
     (let s1 = emit (ConsoleError ''[DroneControl] Command failed:'' e) s
      in if onCommandError s1 then emit (OnCommandError c e) s1 else s1)"

subsection \<open>Dispatch of start and update\<close>

text \<open>
  \<open>this.currentCommand.start(droneState)\<close> and \<open>this.currentCommand.update(delta, droneState)\<close>
  are dispatched on the command object, and \<open>enqueue\<close> accepts any BaseCommand. The
  controller is therefore written over the two methods it dispatches: a method returns the
  command and the promise store as it left them and, for \<open>start\<close>, the fault it threw if
  any, for \<open>update\<close>, either the fault it threw or the instruction it returned.
  \<open>commands_js\<close> are the methods of the five commands of commands.js, which never throw.
\<close>

record methods =
  start_of :: "real \<Rightarrow> drone_state \<Rightarrow> command \<Rightarrow> promises \<Rightarrow> js_error option \<times> command \<times> promises"
  update_of :: "real \<Rightarrow> real \<Rightarrow> drone_state \<Rightarrow> command \<Rightarrow> promises
                  \<Rightarrow> (js_error + movement_cmd) \<times> command \<times> promises"

definition commands_js :: methods where
  "commands_js =
     \<lparr>start_of = (\<lambda>now ds c P. (None, command_start now ds c P)),
      update_of = (\<lambda>delta now ds c P.
                     (let (mc, c', P') = command_update delta now ds c P in (Inr mc, c', P')))\<rparr>"

subsection \<open>The tick\<close>

text \<open>
  \<open>_startNextCommand\<close>. The result says whether \<open>start\<close> threw; the state is returned as
  the throw left it.
\<close>

definition startNextCommand :: "methods \<Rightarrow> real \<Rightarrow> control \<Rightarrow> js_error option \<times> control" where
  "startNextCommand M now s =
     (case commandQueue s of
        [] \<Rightarrow> (None, s)
      | c # rest \<Rightarrow>
          (let s1 = s\<lparr>currentCommand := Some c, commandQueue := rest\<rparr>;
               s2 = setState RUNNING s1;
               droneState = getState s2;
               (thrown, c', P') = start_of M now droneState c (promise_store s2);
               s3 = s2\<lparr>currentCommand := Some c', promise_store := P'\<rparr>
           in case thrown of
                Some e \<Rightarrow> (Some e, s3)
              | None \<Rightarrow> (None, if onCommandStart s3 then emit (OnCommandStart c') s3 else s3)))"

text \<open>
  The \<open>catch\<close> block of \<open>update\<close>, followed by \<open>return true\<close>. With no current command
  \<open>this.currentCommand.fail\<close> is a TypeError thrown out of the block.
\<close>

definition catch_block :: "js_error \<Rightarrow> control \<Rightarrow> (js_error + bool) \<times> control" where
  "catch_block e s =
     (let s1 = emit (ConsoleError ''[DroneControl] Command execution error:'' e) s
      in case currentCommand s1 of
           None \<Rightarrow> (Inl (Error ''TypeError: Cannot read properties of null (reading fail)''), s1)
         | Some c \<Rightarrow>
             (let (c', P') = BaseCommand_fail e c (promise_store s1);
                  s2 = s1\<lparr>currentCommand := Some c', promise_store := P'\<rparr>;
                  s3 = notify_error c' e s2
              in (Inr True, s3\<lparr>currentCommand := None\<rparr>)))"

text \<open>
  The \<open>try\<close> statement of \<open>update\<close> with its \<open>catch\<close> block, and the \<open>return true\<close> after
  it, for the current command \<open>c\<close>.
\<close>

definition try_block ::
  "methods \<Rightarrow> real \<Rightarrow> real \<Rightarrow> command \<Rightarrow> control \<Rightarrow> (js_error + bool) \<times> control" where
  "try_block M delta now c s1 =
     (let droneState = getState s1;
          (r, c', P') = update_of M delta now droneState c (promise_store s1);
          s2 = s1\<lparr>currentCommand := Some c', promise_store := P'\<rparr>
      in case r of
           Inl e \<Rightarrow> catch_block e s2
         | Inr movementCmd \<Rightarrow>
            (let s3 = setMovementCommand movementCmd s2
             in if completed c'
                then (let s4 = (case error c' of
                                  Some e \<Rightarrow> notify_error c' e s3
                                | None \<Rightarrow> notify_complete c' s3);
                          s5 = s4\<lparr>currentCommand := None\<rparr>
                      in if 0 < length (commandQueue s5)
                         then (case startNextCommand M now s5 of
                                 (Some e, s6) \<Rightarrow> catch_block e s6
                               | (None, s6) \<Rightarrow> (Inr True, s6))
                         else (Inr True, s5))
                else (Inr True, s3)))"

text \<open>
  \<open>update(delta)\<close>. The result is \<open>Inr b\<close> when the call returns \<open>b\<close> and \<open>Inl e\<close> when the
  fault \<open>e\<close> leaves the call.
\<close>

definition update_with :: "methods \<Rightarrow> real \<Rightarrow> real \<Rightarrow> control \<Rightarrow> (js_error + bool) \<times> control" where
  "update_with M delta now s =
     (if paused s \<or> model (movement s) = None then (Inr False, s)
      else
        (let (thrown0, s1) =
               (if currentCommand s = None \<and> 0 < length (commandQueue s)
                then startNextCommand M now s else (None, s))
         in case thrown0 of
              Some e \<Rightarrow> (Inl e, s1)
            | None \<Rightarrow>
               (case currentCommand s1 of
                  None \<Rightarrow> (Inr False, if state s1 \<noteq> IDLE then setState IDLE s1 else s1)
                | Some c \<Rightarrow> try_block M delta now c s1)))"

definition DroneControl_update :: "real \<Rightarrow> real \<Rightarrow> control \<Rightarrow> (js_error + bool) \<times> control" where
  "DroneControl_update delta now s = update_with commands_js delta now s"

subsection \<open>The intent API\<close>

text \<open>An intent returns the promise of the command it queued.\<close>

definition enqueue :: "command \<Rightarrow> control \<Rightarrow> nat \<times> control" where
  "enqueue c s = (promise c, s\<lparr>commandQueue := commandQueue s @ [c]\<rparr>)"

text \<open>The \<open>while\<close> loop of \<open>cancel\<close>: shift a command off the queue and cancel it.\<close>

fun cancel_queue :: "command list \<Rightarrow> promises \<Rightarrow> promises" where
  "cancel_queue [] P = P"
| "cancel_queue (c # rest) P = cancel_queue rest (snd (BaseCommand_cancel c P))"

definition DroneControl_cancel :: "control \<Rightarrow> control" where
  "DroneControl_cancel s =
     (let s1 = (case currentCommand s of
                  Some c \<Rightarrow> s\<lparr>promise_store := snd (BaseCommand_cancel c (promise_store s)),
                               currentCommand := None\<rparr>
                | None \<Rightarrow> s);
          s2 = s1\<lparr>promise_store := cancel_queue (commandQueue s1) (promise_store s1),
                  commandQueue := []\<rparr>;
          s3 = setState IDLE s2
      in case model (movement s3) of
           Some pos \<Rightarrow>
             setMovementCommand \<lparr>hover = True, angle = 0, speed = 0, altitude = Some (pos_y pos)\<rparr> s3
         | None \<Rightarrow> s3)"

definition executeImmediate :: "command \<Rightarrow> control \<Rightarrow> nat \<times> control" where
  "executeImmediate c s = enqueue c (DroneControl_cancel s)"

definition DroneControl_hover :: "control \<Rightarrow> nat \<times> control" where
  "DroneControl_hover s =
     (let (p, s1) = new_promise s in executeImmediate (new_HoverCommand no_options p) s1)"

definition takeOff :: "real option \<Rightarrow> options \<Rightarrow> control \<Rightarrow> nat \<times> control" where
  "takeOff alt opts s =
     (let (p, s1) = new_promise s
      in enqueue (new_TakeOffCommand (Some (nullish alt (cfg_defaultAltitude DEFAULT_CONFIG))) opts p) s1)"

definition land :: "options \<Rightarrow> control \<Rightarrow> nat \<times> control" where
  "land opts s = (let (p, s1) = new_promise s in enqueue (new_LandCommand opts p) s1)"

definition moveTo :: "target_arg \<Rightarrow> options \<Rightarrow> control \<Rightarrow> nat \<times> control" where
  "moveTo tgt opts s = (let (p, s1) = new_promise s in enqueue (new_MoveToCommand tgt opts p) s1)"

definition rotateYaw :: "real \<Rightarrow> options \<Rightarrow> control \<Rightarrow> nat \<times> control" where
  "rotateYaw a opts s = (let (p, s1) = new_promise s in enqueue (new_RotateYawCommand a opts p) s1)"

definition pause :: "control \<Rightarrow> control" where
  "pause s =
     (if state s = RUNNING
      then (let s1 = s\<lparr>paused := True\<rparr>;
                s2 = setState PAUSED s1
            in case model (movement s2) of
                 Some pos \<Rightarrow>
                   setMovementCommand \<lparr>hover = True, angle = 0, speed = 0, altitude = Some (pos_y pos)\<rparr> s2
               | None \<Rightarrow> s2)
      else s)"

definition resume :: "control \<Rightarrow> control" where
  "resume s =
     (if state s = PAUSED then setState RUNNING (s\<lparr>paused := False\<rparr>) else s)"

section \<open>drone.js\<close>

text \<open>
  The fields of Drone the controller is concerned with: the controller and
  \<open>_controllerActive\<close>, which is undefined until the first \<open>update\<close>.
\<close>

record drone =
  control :: control
  controllerActive :: "bool option"

text \<open>
  \<open>Drone.update\<close>: the controller's tick, then \<open>movement.update(delta)\<close>, which is the
  parameter \<open>apply_movement\<close> (DroneMovement.js is not among the sources), then the record
  of what the tick returned. The animation mixer is left out. A fault of the tick leaves
  the call before anything else is done.
\<close>

definition Drone_update ::
  "(real \<Rightarrow> movement \<Rightarrow> movement) \<Rightarrow> real \<Rightarrow> real \<Rightarrow> drone \<Rightarrow> js_error option \<times> drone" where
  "Drone_update apply_movement delta now d =
     (case DroneControl_update delta now (control d) of
        (Inl e, s') \<Rightarrow> (Some e, d\<lparr>control := s'\<rparr>)
      | (Inr controllerActive', s') \<Rightarrow>
          (None, d\<lparr>control := s'\<lparr>movement := apply_movement delta (movement s')\<rparr>,
                   controllerActive := Some controllerActive'\<rparr>))"

definition isControllerActive :: "drone \<Rightarrow> bool" where
  "isControllerActive d = (controllerActive d = Some True \<or> DroneControl_isActive (control d))"

section \<open>mission.js\<close>

subsection \<open>Waypoints, results and the mission object\<close>

datatype mission_state = M_PENDING | M_RUNNING | M_PAUSED | M_COMPLETED | M_CANCELLED | M_FAILED

text \<open>The \<open>type\<close> of a waypoint: one of the four of WaypointType, or any other string.\<close>

datatype waypoint_type = MOVE_TO | TAKE_OFF | LAND | HOVER | OTHER string

record waypoint =
  wp_type :: "waypoint_type option"
  wp_x :: "real option"
  wp_y :: "real option"
  wp_z :: "real option"
  wp_altitude :: "real option"
  wp_durationMs :: "real option"
  wp_options :: "options option"

text \<open>What \<open>_executeWaypoint\<close> returns: the result of the command, or \<open>{ hovered, duration }\<close>.\<close>

datatype wp_result = CommandResult cmd_result | Hovered real

text \<open>An entry \<open>{ index, success, result }\<close> or \<open>{ index, success, error }\<close> of the results log.\<close>

record log_entry =
  le_index :: nat
  le_success :: bool
  le_result :: "wp_result option"
  le_error :: "js_error option"

text \<open>The value the mission's promise resolves with.\<close>

record mission_result =
  duration :: real
  mr_results :: "log_entry list"
  waypointsCompleted :: nat
  waypointsTotal :: nat

text \<open>The options of a mission as the caller gives them, and as the constructor stores them.\<close>

record mission_args =
  arg_onProgress :: bool
  arg_onWaypointComplete :: bool
  arg_onError :: bool
  arg_continueOnError :: "bool option"
  arg_timeoutMs :: "real option"

record mission_options =
  onProgress :: bool
  onWaypointComplete :: bool
  onError :: bool
  continueOnError :: bool
  mo_timeoutMs :: real

datatype mission_event =
    Progress nat nat waypoint
  | WaypointComplete nat wp_result
  | WaypointError js_error nat

text \<open>
  \<open>run\<close> is an async function: it runs until its first \<open>await\<close> and is resumed when the
  awaited promise has settled. The point where it is suspended is part of the mission:
  not started, awaiting the promise of the command of waypoint \<open>i\<close>, awaiting the promise
  of \<open>control.hover()\<close> for a hover waypoint with its duration, awaiting the timer of
  \<open>_delay\<close>, or returned.
\<close>

datatype suspension =
    NotStarted
  | AwaitCommand nat nat
  | AwaitHover nat nat real
  | AwaitDelay nat real
  | Returned

text \<open>
  The fields of Mission. \<open>has_control\<close> says whether \<open>this.control\<close> is set; the controller
  itself is passed to every operation. \<open>m_promise\<close> is the mission's own promise.
\<close>

record mission =
  waypoints :: "waypoint list"
  m_options :: mission_options
  m_state :: mission_state
  currentIndex :: nat
  m_startTime :: "real option"
  results :: "log_entry list"
  cancelled :: bool
  has_control :: bool
  m_promise :: "mission_result settlement option"
  m_events :: "mission_event list"
  suspended :: suspension

text \<open>\<open>a || b\<close> on a number: 0 is falsy.\<close>

definition or_default :: "real option \<Rightarrow> real \<Rightarrow> real" where
  "or_default a b = (case a of None \<Rightarrow> b | Some v \<Rightarrow> if v = 0 then b else v)"

definition Mission :: "waypoint list \<Rightarrow> mission_args \<Rightarrow> mission" where
  "Mission wps args =
     \<lparr>waypoints = wps,
      m_options = \<lparr>onProgress = arg_onProgress args,
                   onWaypointComplete = arg_onWaypointComplete args,
                   onError = arg_onError args,
                   continueOnError = nullish (arg_continueOnError args) False,
                   mo_timeoutMs = or_default (arg_timeoutMs args) 300000\<rparr>,
      m_state = M_PENDING, currentIndex = 0, m_startTime = None, results = [],
      cancelled = False, has_control = False, m_promise = None, m_events = [],
      suspended = NotStarted\<rparr>"

text \<open>The resolving functions of the mission's promise act on a pending promise only.\<close>

definition settle_promise :: "'r settlement \<Rightarrow> 'r settlement option \<Rightarrow> 'r settlement option" where
  "settle_promise v p = (case p of None \<Rightarrow> Some v | Some w \<Rightarrow> Some w)"

subsection \<open>run\<close>

text \<open>
  \<open>_executeWaypoint\<close> up to its first \<open>await\<close>: the call of the controller, and where the
  mission is suspended.
\<close>

definition executeWaypoint :: "nat \<Rightarrow> waypoint \<Rightarrow> control \<Rightarrow> suspension \<times> control" where
  "executeWaypoint i wp s =
     (let type = nullish (wp_type wp) MOVE_TO;
          opts = nullish (wp_options wp) no_options
      in case type of
           TAKE_OFF \<Rightarrow> (let (p, s') = takeOff (wp_altitude wp) opts s in (AwaitCommand i p, s'))
         | LAND \<Rightarrow> (let (p, s') = land opts s in (AwaitCommand i p, s'))
         | HOVER \<Rightarrow>
             (let durationMs = or_default (wp_durationMs wp) 1000;
                  (p, s') = DroneControl_hover s
              in (AwaitHover i p durationMs, s'))
         | _ \<Rightarrow>
             (let tgt = \<lparr>arg_x = Some (nullish (wp_x wp) 0), arg_y = wp_y wp,
                         arg_z = Some (nullish (wp_z wp) 0)\<rparr>;
                  (p, s') = moveTo tgt opts s
              in (AwaitCommand i p, s')))"

text \<open>The mission reaches a terminal state, settles its promise and \<open>run\<close> returns.\<close>

definition finish :: "mission_state \<Rightarrow> mission_result settlement \<Rightarrow> mission \<Rightarrow> mission" where
  "finish st v m =
     m\<lparr>m_state := st, m_promise := settle_promise v (m_promise m), suspended := Returned\<rparr>"

text \<open>
  The \<open>for\<close> loop from the test \<open>i < this.waypoints.length\<close> of iteration \<open>i\<close> up to the
  next \<open>await\<close>, or to the end of \<open>run\<close>.
\<close>

definition loop_from :: "real \<Rightarrow> nat \<Rightarrow> mission \<Rightarrow> control \<Rightarrow> mission \<times> control" where
  "loop_from now i m s =
     (if i < length (waypoints m)
      then
        (if cancelled m
         then (finish M_CANCELLED (Rejected (Error ''Mission cancelled'')) m, s)
         else if now - num (m_startTime m) > mo_timeoutMs (m_options m)
         then (finish M_FAILED (Rejected (Error ''Mission timeout'')) m, s)
         else
           (let m1 = m\<lparr>currentIndex := i\<rparr>;
                wp = waypoints m1 ! i;
                m2 = (if onProgress (m_options m1)
                      then m1\<lparr>m_events := m_events m1 @ [Progress i (length (waypoints m1)) wp]\<rparr>
                      else m1);
                (k, s') = executeWaypoint i wp s
            in (m2\<lparr>suspended := k\<rparr>, s')))
      else
        (finish M_COMPLETED
           (Resolved \<lparr>duration = now - num (m_startTime m), mr_results = results m,
                      waypointsCompleted = length (filter le_success (results m)),
                      waypointsTotal = length (waypoints m)\<rparr>) m, s))"

text \<open>
  \<open>run(control)\<close> up to its first \<open>await\<close>. The first component is the error the call is
  rejected with, if any.
\<close>

definition Mission_run :: "real \<Rightarrow> mission \<Rightarrow> control \<Rightarrow> js_error option \<times> mission \<times> control" where
  "Mission_run now m s =
     (if m_state m \<noteq> M_PENDING then (Some (Error ''Mission already started''), m, s)
      else (let m1 = m\<lparr>m_state := M_RUNNING, m_startTime := Some now, has_control := True\<rparr>
            in (None, loop_from now 0 m1 s)))"

text \<open>The \<open>try\<close> branch after a waypoint has succeeded, and the \<open>catch\<close> branch after it failed.\<close>

definition waypoint_succeeded :: "real \<Rightarrow> nat \<Rightarrow> wp_result \<Rightarrow> mission \<Rightarrow> control \<Rightarrow> mission \<times> control" where
  "waypoint_succeeded now i r m s =
     (let m1 = m\<lparr>results := results m @
                    [\<lparr>le_index = i, le_success = True, le_result = Some r, le_error = None\<rparr>]\<rparr>;
          m2 = (if onWaypointComplete (m_options m1)
                then m1\<lparr>m_events := m_events m1 @ [WaypointComplete i r]\<rparr> else m1)
      in loop_from now (i + 1) m2 s)"

definition waypoint_failed :: "real \<Rightarrow> nat \<Rightarrow> js_error \<Rightarrow> mission \<Rightarrow> control \<Rightarrow> mission \<times> control" where
  "waypoint_failed now i e m s =
     (let m1 = m\<lparr>results := results m @
                    [\<lparr>le_index = i, le_success = False, le_result = None, le_error = Some e\<rparr>]\<rparr>;
          m2 = (if onError (m_options m1)
                then m1\<lparr>m_events := m_events m1 @ [WaypointError e i]\<rparr> else m1)
      in if \<not> continueOnError (m_options m2)
         then (finish M_FAILED (Rejected e) m2, s)
         else loop_from now (i + 1) m2 s)"

text \<open>
  \<open>run\<close> is resumed once the promise it awaits has settled; while the promise is pending
  nothing happens.
\<close>

definition Mission_continue :: "real \<Rightarrow> mission \<Rightarrow> control \<Rightarrow> mission \<times> control" where
  "Mission_continue now m s =
     (case suspended m of
        AwaitCommand i p \<Rightarrow>
          (case promise_store s p of
             None \<Rightarrow> (m, s)
           | Some (Resolved r) \<Rightarrow> waypoint_succeeded now i (CommandResult r) m s
           | Some (Rejected e) \<Rightarrow> waypoint_failed now i e m s)
      | AwaitHover i p durationMs \<Rightarrow>
          (case promise_store s p of
             None \<Rightarrow> (m, s)
           | Some (Resolved r) \<Rightarrow> (m\<lparr>suspended := AwaitDelay i durationMs\<rparr>, s)
           | Some (Rejected e) \<Rightarrow> waypoint_failed now i e m s)
      | _ \<Rightarrow> (m, s))"

text \<open>The timer of \<open>_delay\<close> fires.\<close>

definition Mission_delay_elapsed :: "real \<Rightarrow> mission \<Rightarrow> control \<Rightarrow> mission \<times> control" where
  "Mission_delay_elapsed now m s =
     (case suspended m of
        AwaitDelay i durationMs \<Rightarrow> waypoint_succeeded now i (Hovered durationMs) m s
      | _ \<Rightarrow> (m, s))"

subsection \<open>cancel, pause, resume\<close>

definition Mission_cancel :: "mission \<Rightarrow> control \<Rightarrow> mission \<times> control" where
  "Mission_cancel m s =
     (m\<lparr>cancelled := True\<rparr>, if has_control m then DroneControl_cancel s else s)"

definition Mission_pause :: "mission \<Rightarrow> control \<Rightarrow> mission \<times> control" where
  "Mission_pause m s =
     (if m_state m = M_RUNNING
      then (m\<lparr>m_state := M_PAUSED\<rparr>, if has_control m then pause s else s)
      else (m, s))"

definition Mission_resume :: "mission \<Rightarrow> control \<Rightarrow> mission \<times> control" where
  "Mission_resume m s =
     (if m_state m = M_PAUSED
      then (m\<lparr>m_state := M_RUNNING\<rparr>, if has_control m then resume s else s)
      else (m, s))"

section \<open>The invariant of the controller\<close>

text \<open>In the state Idle there is no current command.\<close>

definition idle_invariant :: "control \<Rightarrow> bool" where
  "idle_invariant s = (state s = IDLE \<longrightarrow> currentCommand s = None)"

text \<open>The commands the controller holds.\<close>

definition held :: "control \<Rightarrow> command list" where
  "held s = (case currentCommand s of None \<Rightarrow> [] | Some c \<Rightarrow> [c]) @ commandQueue s"

text \<open>A command is marked completed exactly when its own promise has settled.\<close>

definition consistent :: "promises \<Rightarrow> command \<Rightarrow> bool" where
  "consistent P c = (completed c \<longleftrightarrow> P (promise c) \<noteq> None)"

text \<open>
  Every command the controller holds has a promise of its own, created before the next
  \<open>new Promise\<close>, and is consistent with it.
\<close>

definition well_formed :: "control \<Rightarrow> bool" where
  "well_formed s =
     (distinct (map promise (held s))
      \<and> (\<forall>c \<in> set (held s). promise c < next_promise s \<and> consistent (promise_store s) c))"

text \<open>
  What a method call on the command \<open>c\<close> may do: it keeps the command's promise and
  touches no other promise, keeps the command consistent, and changes neither the
  settlement nor the error of a command that has settled.
\<close>

definition own_promise_only :: "command \<Rightarrow> promises \<Rightarrow> command \<times> promises \<Rightarrow> bool" where
  "own_promise_only c P cP =
     (promise (fst cP) = promise c
      \<and> (\<forall>p. p \<noteq> promise c \<longrightarrow> snd cP p = P p)
      \<and> (consistent P c \<longrightarrow> consistent (snd cP) (fst cP))
      \<and> (completed c \<longrightarrow> completed (fst cP) \<and> error (fst cP) = error c \<and> snd cP = P))"

text \<open>Methods that do no more than that.\<close>

definition well_behaved :: "methods \<Rightarrow> bool" where
  "well_behaved M =
     (\<forall>now ds c P delta.
        own_promise_only c P (snd (start_of M now ds c P))
        \<and> own_promise_only c P (snd (update_of M delta now ds c P)))"

section \<open>Predicates of the mission\<close>

text \<open>The entry the \<open>catch\<close> branch of \<open>run\<close> appends to the results log.\<close>

definition failed_entry :: "nat \<Rightarrow> js_error \<Rightarrow> log_entry" where
  "failed_entry i e = \<lparr>le_index = i, le_success = False, le_result = None, le_error = Some e\<rparr>"

text \<open>
  While \<open>run\<close> has not returned the mission's promise is pending, and a mission in the
  state Pending has not started.
\<close>

definition unsettled_while_running :: "mission \<Rightarrow> bool" where
  "unsettled_while_running m =
     ((suspended m \<noteq> Returned \<longrightarrow> m_promise m = None)
      \<and> (m_state m = M_PENDING \<longrightarrow> suspended m = NotStarted))"

section \<open>Example runs\<close>

text \<open>
  Controller states reached through the public API, used as concrete inputs below: a
  vehicle on the ground at the origin; a controller that has started a TakeOff and holds a
  MoveTo in its queue; a controller whose current command is a RotateYaw that was started,
  and so resolved, at the end of the tick that finished its predecessor; the busy
  controller with its vehicle detached; a controller after the tick that started and
  finished its only command; and a drone on whose controller \<open>takeOff\<close> has been called.
\<close>

definition example_vehicle :: movement where
  "example_vehicle = \<lparr>model = Some \<lparr>pos_x = 0, pos_y = 0, pos_z = 0\<rparr>, currentAngle = None,
                       mv_command = None\<rparr>"

definition example_busy :: control where
  "example_busy =
     snd (DroneControl_update (1 / 60) 1
       (snd (moveTo \<lparr>arg_x = Some 1, arg_y = None, arg_z = None\<rparr> no_options
         (snd (takeOff (Some 1) no_options (DroneControl example_vehicle))))))"

definition example_settled :: control where
  "example_settled =
     snd (DroneControl_update (1 / 60) 1
       (snd (rotateYaw 1 no_options
         (snd (rotateYaw 0 no_options (DroneControl example_vehicle))))))"

definition example_detached :: control where
  "example_detached =
     example_busy\<lparr>movement := \<lparr>model = None, currentAngle = None, mv_command = None\<rparr>\<rparr>"

definition example_finished :: control where
  "example_finished =
     snd (DroneControl_update (1 / 60) 1 (snd (rotateYaw 0 no_options (DroneControl example_vehicle))))"

definition example_drone :: drone where
  "example_drone =
     \<lparr>control = snd (takeOff (Some 1) no_options (DroneControl example_vehicle)),
      controllerActive = None\<rparr>"

text \<open>
  The methods of a subclass of the five commands whose \<open>update\<close> throws at once, and a
  controller on which \<open>hover()\<close> has just been called.
\<close>

definition throwing_update :: methods where
  "throwing_update =
     commands_js\<lparr>update_of := (\<lambda>delta now ds c P. (Inl (Error ''boom''), c, P))\<rparr>"

definition example_hover_queued :: control where
  "example_hover_queued = snd (DroneControl_hover (DroneControl example_vehicle))"

text \<open>
  Commands started at time 1 and updated at time 30002, past the default timeout of 30000:
  a MoveTo 1 m from its target, a Hover, and a TakeOff from the ground.
\<close>

definition example_airborne :: drone_state where
  "example_airborne =
     getState (DroneControl \<lparr>model = Some \<lparr>pos_x = 0, pos_y = 1, pos_z = 0\<rparr>,
                             currentAngle = None, mv_command = None\<rparr>)"

definition started_moveTo :: "command \<times> promises" where
  "started_moveTo =
     command_start 1 example_airborne
       (new_MoveToCommand \<lparr>arg_x = Some 1, arg_y = None, arg_z = None\<rparr> no_options 0) (\<lambda>p. None)"

definition late_moveTo :: "movement_cmd \<times> command \<times> promises" where
  "late_moveTo =
     command_update (1 / 60) 30002 example_airborne (fst started_moveTo) (snd started_moveTo)"

definition started_hover :: "command \<times> promises" where
  "started_hover = command_start 1 example_airborne (new_HoverCommand no_options 0) (\<lambda>p. None)"

definition late_hover :: "movement_cmd \<times> command \<times> promises" where
  "late_hover =
     command_update (1 / 60) 30002 example_airborne (fst started_hover) (snd started_hover)"

definition started_takeOff :: "command \<times> promises" where
  "started_takeOff =
     command_start 1 (getState (DroneControl example_vehicle))
       (new_TakeOffCommand (Some 1) no_options 0) (\<lambda>p. None)"

definition late_takeOff :: "movement_cmd \<times> command \<times> promises" where
  "late_takeOff =
     command_update (1 / 60) 30002 (getState (DroneControl example_vehicle))
       (fst started_takeOff) (snd started_takeOff)"

text \<open>
  \<open>moveTo({x: 1})\<close> on a new controller, started by the tick at time 1; the tick at time
  30002, past the timeout; and the tick after that.
\<close>

definition example_moving :: control where
  "example_moving =
     snd (DroneControl_update (1 / 60) 1
       (snd (moveTo \<lparr>arg_x = Some 1, arg_y = None, arg_z = None\<rparr> no_options
         (DroneControl example_vehicle))))"

definition example_timed_out :: control where
  "example_timed_out = snd (DroneControl_update (1 / 60) 30002 example_moving)"

definition example_after_timeout :: "(js_error + bool) \<times> control" where
  "example_after_timeout = DroneControl_update (1 / 60) 30003 example_timed_out"

text \<open>
  A mission of one MoveTo waypoint with the default options, run at time 0 on a new
  controller; then \<open>mission.cancel()\<close> while the MoveTo is awaited; then the resumption of
  \<open>run\<close> at time 5. The same with \<open>continueOnError\<close>, cancelled through the mission or
  preempted by \<open>cancel()\<close> on the controller.
\<close>

definition example_args :: mission_args where
  "example_args = \<lparr>arg_onProgress = False, arg_onWaypointComplete = False, arg_onError = False,
                    arg_continueOnError = None, arg_timeoutMs = None\<rparr>"

definition moveTo_waypoint :: waypoint where
  "moveTo_waypoint = \<lparr>wp_type = Some MOVE_TO, wp_x = Some 1, wp_y = None, wp_z = Some 0,
                       wp_altitude = None, wp_durationMs = None, wp_options = None\<rparr>"

definition example_mission_running :: "mission \<times> control" where
  "example_mission_running =
     snd (Mission_run 0 (Mission [moveTo_waypoint] example_args) (DroneControl example_vehicle))"

definition example_mission_cancelled :: "mission \<times> control" where
  "example_mission_cancelled =
     Mission_cancel (fst example_mission_running) (snd example_mission_running)"

definition example_mission_after_cancel :: "mission \<times> control" where
  "example_mission_after_cancel =
     Mission_continue 5 (fst example_mission_cancelled) (snd example_mission_cancelled)"

definition tolerant_args :: mission_args where
  "tolerant_args = example_args\<lparr>arg_continueOnError := Some True\<rparr>"

definition example_tolerant_running :: "mission \<times> control" where
  "example_tolerant_running =
     snd (Mission_run 0 (Mission [moveTo_waypoint] tolerant_args) (DroneControl example_vehicle))"

definition example_tolerant_cancelled :: "mission \<times> control" where
  "example_tolerant_cancelled =
     Mission_cancel (fst example_tolerant_running) (snd example_tolerant_running)"

definition example_tolerant_preempted :: "mission \<times> control" where
  "example_tolerant_preempted =
     (fst example_tolerant_running, DroneControl_cancel (snd example_tolerant_running))"

text \<open>
  A mission of two MoveTo waypoints with \<open>continueOnError\<close>, run at time 0: cancelled
  through the mission while the first MoveTo is awaited, or preempted by \<open>cancel()\<close> on the
  controller.
\<close>

definition example_two_running :: "mission \<times> control" where
  "example_two_running =
     snd (Mission_run 0 (Mission [moveTo_waypoint, moveTo_waypoint] tolerant_args)
            (DroneControl example_vehicle))"

definition example_two_cancelled :: "mission \<times> control" where
  "example_two_cancelled = Mission_cancel (fst example_two_running) (snd example_two_running)"

definition example_two_preempted :: "mission \<times> control" where
  "example_two_preempted =
     (fst example_two_running, DroneControl_cancel (snd example_two_running))"

section \<open>Unfolding the definitions\<close>

text \<open>The defining equations of the commands and of the controller, for evaluating a run.\<close>

lemmas command_defs =
  BaseCommand_def BaseCommand_start_def BaseCommand_complete_def BaseCommand_fail_def
  BaseCommand_cancel_def BaseCommand_update_def timed_out_def truthy_time_def num_def nullish_def
  resolve_promise_def reject_promise_def DEFAULT_CONFIG_def no_options_def
  new_HoverCommand_def new_TakeOffCommand_def new_LandCommand_def new_MoveToCommand_def
  new_RotateYawCommand_def
  HoverCommand_start_def TakeOffCommand_start_def LandCommand_start_def MoveToCommand_start_def
  RotateYawCommand_start_def command_start_def
  HoverCommand_update_def TakeOffCommand_update_def LandCommand_update_def
  MoveToCommand_update_def RotateYawCommand_update_def command_update_def
  zone_speed_def guarded_speed_def

lemmas control_defs =
  DroneControl_def new_promise_def emit_def constructor_name_def DroneControl_isActive_def
  getState_def setMovementCommand_def setState_def notify_complete_def notify_error_def
  commands_js_def startNextCommand_def catch_block_def try_block_def update_with_def DroneControl_update_def
  enqueue_def DroneControl_cancel_def executeImmediate_def DroneControl_hover_def takeOff_def
  land_def moveTo_def rotateYaw_def pause_def resume_def

section \<open>Settlement is single-assignment\<close>

lemma completed_complete: "completed (fst (BaseCommand_complete r c P))"
  by (simp add: BaseCommand_complete_def)

lemma completed_fail: "completed (fst (BaseCommand_fail e c P))"
  by (simp add: BaseCommand_fail_def)

lemma completed_cancel: "completed (fst (BaseCommand_cancel c P))"
  by (simp add: BaseCommand_cancel_def completed_fail)

lemma complete_noop: "completed c \<Longrightarrow> BaseCommand_complete r c P = (c, P)"
  by (simp add: BaseCommand_complete_def)

lemma fail_noop: "completed c \<Longrightarrow> BaseCommand_fail e c P = (c, P)"
  by (simp add: BaseCommand_fail_def)

lemma cancel_noop: "completed c \<Longrightarrow> BaseCommand_cancel c P = (c, P)"
  by (simp add: BaseCommand_cancel_def fail_noop)

lemma completed_settle: "completed (fst (settle k cP))"
  by (cases k) (simp_all add: settle_def completed_complete completed_fail completed_cancel)

lemma settle_noop: "completed (fst cP) \<Longrightarrow> settle k cP = cP"
  by (cases k) (simp_all add: settle_def complete_noop fail_noop cancel_noop)

text \<open>
  C1. Whatever the first call of \<open>complete\<close>, \<open>fail\<close> or \<open>cancel\<close> on a command is, it leaves
  the command marked completed, and any later call of \<open>complete\<close>, \<open>fail\<close> or \<open>cancel\<close>
  changes nothing: the completed flag, the stored error and every promise of the store
  (so the settled value of the command's own promise) are as the first call left them.
\<close>

theorem command_settles_at_most_once:
  "completed (fst (settle k1 (c, P))) \<and> settle k2 (settle k1 (c, P)) = settle k1 (c, P)"
  by (simp add: completed_settle settle_noop)

section \<open>The steering of MoveTo\<close>

lemma MoveTo_not_arrived:
  assumes "dx = tgt_x (mt_target m) - pos_x (position ds)"
    and "dz = tgt_z (mt_target m) - pos_z (position ds)"
    and "dy = num (tgt_y (mt_target m)) - pos_y (position ds)"
    and "d = sqrt (dx * dx + dz * dz)"
    and "\<not> (d < mt_positionTolerance m \<and> \<bar>dy\<bar> < mt_altitudeTolerance m \<and> 2 \<le> mt_stableFrames m + 1)"
  shows "fst (MoveToCommand_update m delta now ds c P) =
           \<lparr>hover = False, angle = atan2 dz dx,
            speed = max (guarded_speed m delta d) (mt_minSpeed m * (8 / 10)),
            altitude = tgt_y (mt_target m)\<rparr>"
  using assms
  by (auto simp add: MoveToCommand_update_def Let_def split: prod.splits)

lemma guarded_speed_unfolded:
  "guarded_speed m delta d =
     (let speed0 = (if d < 2 * mt_positionTolerance m then mt_minSpeed m
                    else if d < mt_slowdownDistance m
                         then mt_minSpeed m + (mt_maxSpeed m - mt_minSpeed m) * (d / mt_slowdownDistance m)
                         else mt_maxSpeed m)
      in if speed0 * delta > d \<and> d > mt_positionTolerance m then 0.8 * d / delta else speed0)"
  by (simp add: guarded_speed_def zone_speed_def Let_def mult.commute)

text \<open>
  The two divisions of the speed computation never divide by zero: the quotient by
  \<open>slowdownDistance\<close> is taken only when the distance, which is not negative, is below it,
  and the quotient by \<open>delta\<close> only when \<open>speed * delta\<close> exceeds the distance.
\<close>

lemma speed_divisors_nonzero:
  assumes "0 \<le> d"
  shows "(d < mt_slowdownDistance m \<longrightarrow> mt_slowdownDistance m \<noteq> 0)
       \<and> (zone_speed m d * delta > d \<longrightarrow> delta \<noteq> 0)"
  using assms by auto

text \<open>
  C6. A MoveTo tick whose arrival test has not debounced to completion (the test fails, or
  it holds for the first time in a row) returns the instruction with \<open>hover\<close> false, the
  angle \<open>atan2 dz dx\<close>, and the speed that is the maximum of \<open>0.8 * minSpeed\<close> and the
  zone speed, itself replaced by \<open>0.8 * d / delta\<close> when \<open>speed * delta > d\<close> and
  \<open>d > positionTolerance\<close>. The zone speed is \<open>minSpeed\<close> when \<open>d < 2 * positionTolerance\<close>,
  else \<open>minSpeed + (maxSpeed - minSpeed) * (d / slowdownDistance)\<close> when
  \<open>d < slowdownDistance\<close>, else \<open>maxSpeed\<close>.
\<close>

theorem moveTo_steering:
  "let dx = tgt_x (mt_target m) - pos_x (position ds);
       dz = tgt_z (mt_target m) - pos_z (position ds);
       dy = num (tgt_y (mt_target m)) - pos_y (position ds);
       d = sqrt (dx * dx + dz * dz);
       speed0 = (if d < 2 * mt_positionTolerance m then mt_minSpeed m
                 else if d < mt_slowdownDistance m
                      then mt_minSpeed m + (mt_maxSpeed m - mt_minSpeed m) * (d / mt_slowdownDistance m)
                      else mt_maxSpeed m);
       speed1 = (if speed0 * delta > d \<and> d > mt_positionTolerance m then 0.8 * d / delta else speed0)
   in \<not> (d < mt_positionTolerance m \<and> \<bar>dy\<bar> < mt_altitudeTolerance m \<and> 2 \<le> mt_stableFrames m + 1)
      \<longrightarrow> fst (MoveToCommand_update m delta now ds c P) =
            \<lparr>hover = False, angle = atan2 dz dx, speed = max speed1 (0.8 * mt_minSpeed m),
             altitude = tgt_y (mt_target m)\<rparr>"
  unfolding Let_def
proof (intro impI)
  let ?dx = "tgt_x (mt_target m) - pos_x (position ds)"
  let ?dz = "tgt_z (mt_target m) - pos_z (position ds)"
  let ?dy = "num (tgt_y (mt_target m)) - pos_y (position ds)"
  let ?d = "sqrt (?dx * ?dx + ?dz * ?dz)"
  let ?zone = "if ?d < 2 * mt_positionTolerance m then mt_minSpeed m
               else if ?d < mt_slowdownDistance m
                    then mt_minSpeed m + (mt_maxSpeed m - mt_minSpeed m) * (?d / mt_slowdownDistance m)
                    else mt_maxSpeed m"
  assume h: "\<not> (?d < mt_positionTolerance m \<and> \<bar>?dy\<bar> < mt_altitudeTolerance m
                 \<and> 2 \<le> mt_stableFrames m + 1)"
  have "fst (MoveToCommand_update m delta now ds c P) =
           \<lparr>hover = False, angle = atan2 ?dz ?dx,
            speed = max (guarded_speed m delta ?d) (mt_minSpeed m * (8 / 10)),
            altitude = tgt_y (mt_target m)\<rparr>"
    by (rule MoveTo_not_arrived [OF refl refl refl refl h])
  then show "fst (MoveToCommand_update m delta now ds c P) =
    \<lparr>hover = False, angle = atan2 ?dz ?dx,
     speed = max (if ?zone * delta > ?d \<and> ?d > mt_positionTolerance m
                  then 0.8 * ?d / delta else ?zone)
                 (0.8 * mt_minSpeed m),
     altitude = tgt_y (mt_target m)\<rparr>"
    by (simp only: guarded_speed_unfolded Let_def mult.commute [of "mt_minSpeed m" "8 / 10"])
qed

text \<open>
  The first tick of \<open>moveTo({x: 1, y: 1})\<close> with the default configuration, 1 m from the
  target at the target's altitude: the far zone, \<open>maxSpeed\<close>.
\<close>

theorem moveTo_steering_witness:
  "fst (MoveToCommand_update
          \<lparr>mt_target = \<lparr>tgt_x = 1, tgt_y = Some 1, tgt_z = 0\<rparr>, mt_maxSpeed = 2 / 10,
           mt_minSpeed = 5 / 100, mt_positionTolerance = 8 / 100, mt_altitudeTolerance = 5 / 100,
           mt_slowdownDistance = 3 / 10, mt_stableFrames = 0\<rparr>
          (1 / 60) 1000
          (getState (DroneControl \<lparr>model = Some \<lparr>pos_x = 0, pos_y = 1, pos_z = 0\<rparr>,
                                   currentAngle = None, mv_command = None\<rparr>))
          (BaseCommand_start 0 (new_MoveToCommand \<lparr>arg_x = Some 1, arg_y = Some 1, arg_z = None\<rparr> no_options 0))
          (\<lambda>p. None))
   = \<lparr>hover = False, angle = atan2 0 1, speed = 2 / 10, altitude = Some 1\<rparr>"
  using moveTo_steering [of
          "\<lparr>mt_target = \<lparr>tgt_x = 1, tgt_y = Some 1, tgt_z = 0\<rparr>, mt_maxSpeed = 2 / 10,
           mt_minSpeed = 5 / 100, mt_positionTolerance = 8 / 100, mt_altitudeTolerance = 5 / 100,
           mt_slowdownDistance = 3 / 10, mt_stableFrames = 0\<rparr>"
          "getState (DroneControl \<lparr>model = Some \<lparr>pos_x = 0, pos_y = 1, pos_z = 0\<rparr>,
                                   currentAngle = None, mv_command = None\<rparr>)"
          "1 / 60" 1000
          "BaseCommand_start 0 (new_MoveToCommand \<lparr>arg_x = Some 1, arg_y = Some 1, arg_z = None\<rparr> no_options 0)"
          "\<lambda>p. None"]
  by (simp add: getState_def DroneControl_def Let_def num_def)

section \<open>Timeout\<close>

lemma BaseCommand_update_timeout:
  assumes "\<not> completed c" and "startTime c = Some t" and "t \<noteq> 0" and "now - t > timeoutMs c"
    and "P (promise c) = None"
  shows "BaseCommand_update now ds c P =
           (\<lparr>hover = True, angle = 0, speed = 0, altitude = Some (pos_y (position ds))\<rparr>,
            c\<lparr>completed := True, error := Some (Error ''Command timeout'')\<rparr>,
            P(promise c := Some (Rejected (Error ''Command timeout''))))"
  using assms
  by (simp add: BaseCommand_update_def timed_out_def truthy_time_def num_def BaseCommand_fail_def
        reject_promise_def)

text \<open>
  What the timeout check does. A started command that has not settled yet (its own promise
  is pending), with a start time other than 0 and more than \<open>timeoutMs\<close> behind the clock,
  is settled by the next \<open>update\<close> as failed with the error "Command timeout", for every
  command but RotateYaw, whose \<open>update\<close> has no timeout check. Hover, TakeOff and Land
  return a hover instruction with speed 0 on that tick, as \<open>BaseCommand.update\<close> does.
\<close>

lemma timeout_settles:
  assumes "\<not> completed c" and "startTime c = Some t" and "t \<noteq> 0" and "now - t > timeoutMs c"
    and "P (promise c) = None"
    and "\<forall>a. variant c \<noteq> RotateYawCommand a"
  shows "let (mc, c', P') = command_update delta now ds c P
         in completed c' \<and> error c' = Some (Error ''Command timeout'')
          \<and> P' (promise c) = Some (Rejected (Error ''Command timeout''))
          \<and> ((\<forall>m. variant c \<noteq> MoveToCommand m) \<longrightarrow> hover mc \<and> speed mc = 0)"
proof -
  have bu: "BaseCommand_update now ds c P =
           (\<lparr>hover = True, angle = 0, speed = 0, altitude = Some (pos_y (position ds))\<rparr>,
            c\<lparr>completed := True, error := Some (Error ''Command timeout'')\<rparr>,
            P(promise c := Some (Rejected (Error ''Command timeout''))))"
    using assms(1-5) by (rule BaseCommand_update_timeout)
  show ?thesis
  proof (cases "variant c")
    case (HoverCommand ta)
    then show ?thesis
      using bu by (simp add: command_update_def HoverCommand_update_def)
  next
    case (TakeOffCommand ta tol sf la)
    then show ?thesis
      using bu
      by (simp add: command_update_def TakeOffCommand_update_def Let_def BaseCommand_complete_def)
  next
    case (LandCommand ga tol sf)
    then show ?thesis
      using bu
      by (simp add: command_update_def LandCommand_update_def Let_def BaseCommand_complete_def)
  next
    case (MoveToCommand m)
    then show ?thesis
      using bu
      by (simp add: command_update_def MoveToCommand_update_def Let_def BaseCommand_complete_def)
  next
    case (RotateYawCommand a)
    with assms(6) show ?thesis by simp
  qed
qed

text \<open>The TakeOff started at time 1 and updated at time 30002 hovers on the tick of its timeout.\<close>

lemma timeout_takeOff_hovers:
  "completed (fst (snd late_takeOff))
   \<and> error (fst (snd late_takeOff)) = Some (Error ''Command timeout'')
   \<and> snd (snd late_takeOff) 0 = Some (Rejected (Error ''Command timeout''))
   \<and> hover (fst late_takeOff) \<and> speed (fst late_takeOff) = 0"
  using timeout_settles [of "fst started_takeOff" 1 30002 "snd started_takeOff" "1 / 60"
      "getState (DroneControl example_vehicle)"]
  by (simp add: late_takeOff_def started_takeOff_def command_start_def TakeOffCommand_start_def
        new_TakeOffCommand_def BaseCommand_def BaseCommand_start_def no_options_def nullish_def
        DEFAULT_CONFIG_def Let_def split: prod.splits)

text \<open>
  A Hover has resolved in \<open>start\<close>; its update past the timeout leaves it resolved, \<open>fail\<close>
  being without effect on a settled command.
\<close>

lemma timeout_hover_stays_resolved:
  "timed_out 30002 (fst started_hover)
   \<and> error (fst (snd late_hover)) = None
   \<and> snd (snd late_hover) 0 = Some (Resolved (HoverResult \<lparr>pos_x = 0, pos_y = 1, pos_z = 0\<rparr>))"
  by (simp add: late_hover_def started_hover_def example_airborne_def getState_def
        DroneControl_def command_defs Let_def)

text \<open>
  C5, evaluated. A MoveTo started at time 1, 1 m from its target, has not settled and is
  past its timeout when it is updated at time 30002. The update settles it with "Command
  timeout", and the instruction it returns is not the hover instruction of
  \<open>BaseCommand.update\<close> but the steering instruction at \<open>maxSpeed\<close>. Through the controller:
  the tick at time 30002 rejects the promise of \<open>moveTo\<close>, clears the current command and
  writes that steering instruction; the next tick returns \<open>false\<close> and sets the state to
  Idle, and the steering instruction is still the one written last.
\<close>

theorem timeout_moveTo_keeps_steering:
  "\<not> completed (fst started_moveTo) \<and> timed_out 30002 (fst started_moveTo)
   \<and> completed (fst (snd late_moveTo))
   \<and> error (fst (snd late_moveTo)) = Some (Error ''Command timeout'')
   \<and> snd (snd late_moveTo) 0 = Some (Rejected (Error ''Command timeout''))
   \<and> \<not> hover (fst late_moveTo) \<and> speed (fst late_moveTo) = 2 / 10
   \<and> promise_store example_timed_out 0 = Some (Rejected (Error ''Command timeout''))
   \<and> currentCommand example_timed_out = None
   \<and> map_option hover (mv_command (movement example_timed_out)) = Some False
   \<and> map_option speed (mv_command (movement example_timed_out)) = Some (2 / 10)
   \<and> fst example_after_timeout = Inr False
   \<and> state (snd example_after_timeout) = IDLE
   \<and> map_option hover (mv_command (movement (snd example_after_timeout))) = Some False
   \<and> map_option speed (mv_command (movement (snd example_after_timeout))) = Some (2 / 10)"
  by (simp add: late_moveTo_def started_moveTo_def example_airborne_def
        example_after_timeout_def example_timed_out_def example_moving_def example_vehicle_def
        command_defs control_defs Let_def)

section \<open>cancel and executeImmediate\<close>

lemma cancel_store:
  "snd (BaseCommand_cancel c P) =
     (if completed c \<or> P (promise c) \<noteq> None then P
      else P(promise c := Some (Rejected (Error ''Command cancelled''))))"
  by (auto simp add: BaseCommand_cancel_def BaseCommand_fail_def reject_promise_def
        split: option.splits)

lemma cancel_store_settled: "P p = Some v \<Longrightarrow> snd (BaseCommand_cancel c P) p = Some v"
  by (auto simp add: cancel_store)

lemma cancel_queue_settled: "P p = Some v \<Longrightarrow> cancel_queue cs P p = Some v"
  by (induction cs arbitrary: P) (simp_all add: cancel_store_settled)

lemma cancel_queue_other: "p \<notin> promise ` set cs \<Longrightarrow> cancel_queue cs P p = P p"
  by (induction cs arbitrary: P) (auto simp add: cancel_store)

lemma cancel_queue_pending:
  assumes "c \<in> set cs" and "P (promise c) = None"
    and "\<forall>c \<in> set cs. P (promise c) = None \<longrightarrow> \<not> completed c"
  shows "cancel_queue cs P (promise c) = Some (Rejected (Error ''Command cancelled''))"
  using assms
proof (induction cs arbitrary: P)
  case Nil
  then show ?case by simp
next
  case (Cons a cs)
  let ?P = "snd (BaseCommand_cancel a P)"
  show ?case
  proof (cases "promise a = promise c")
    case True
    with Cons.prems have "?P (promise c) = Some (Rejected (Error ''Command cancelled''))"
      by (auto simp add: cancel_store)
    then show ?thesis by (simp add: cancel_queue_settled)
  next
    case False
    with Cons.prems have in_cs: "c \<in> set cs" by auto
    from False Cons.prems have pend: "?P (promise c) = None" by (simp add: cancel_store)
    have cons: "\<forall>c \<in> set cs. ?P (promise c) = None \<longrightarrow> \<not> completed c"
      using Cons.prems(3) by (auto simp add: cancel_store split: if_splits)
    from Cons.IH [OF in_cs pend cons] show ?thesis by simp
  qed
qed

lemma cancel_queue_all:
  assumes "c \<in> set cs"
    and "\<forall>c \<in> set cs. P (promise c) = None \<longrightarrow> \<not> completed c"
  shows "cancel_queue cs P (promise c) =
           (case P (promise c) of
              None \<Rightarrow> Some (Rejected (Error ''Command cancelled''))
            | Some v \<Rightarrow> Some v)"
  using assms
  by (cases "P (promise c)") (simp_all add: cancel_queue_pending cancel_queue_settled)

text \<open>cancel() on the store is the loop over the current command followed by the queue.\<close>

lemma DroneControl_cancel_fields:
  "commandQueue (DroneControl_cancel s) = []"
  "currentCommand (DroneControl_cancel s) = None"
  "state (DroneControl_cancel s) = IDLE"
  "promise_store (DroneControl_cancel s) =
     cancel_queue (case currentCommand s of None \<Rightarrow> commandQueue s | Some c \<Rightarrow> c # commandQueue s)
       (promise_store s)"
  "mv_command (movement (DroneControl_cancel s)) =
     (case model (movement s) of
        Some pos \<Rightarrow> Some \<lparr>hover = True, angle = 0, speed = 0, altitude = Some (pos_y pos)\<rparr>
      | None \<Rightarrow> mv_command (movement s))"
  by (simp_all add: DroneControl_cancel_def Let_def setState_def setMovementCommand_def emit_def
        split: option.splits)

text \<open>
  C2 (amended). In a controller state with a current command \<open>C\<close> and any number of queued
  commands, where a command whose promise is pending is not marked completed, \<open>cancel()\<close>
  leaves no promise of these commands pending: a promise that was pending is rejected with
  "Command cancelled", a promise that had settled keeps its settlement, and no other
  promise is touched. The queue is emptied, the current command cleared, the state set to
  Idle, and, when a vehicle is attached, a hover instruction at the vehicle's altitude is
  written (with no vehicle nothing is written). \<open>executeImmediate cmd\<close> is this \<open>cancel()\<close>
  followed by \<open>enqueue cmd\<close>, which leaves \<open>cmd\<close> as the only queued command.
\<close>

theorem cancel_settles_everything:
  assumes cur: "currentCommand s = Some C"
    and cons: "\<forall>c \<in> set (C # commandQueue s). promise_store s (promise c) = None \<longrightarrow> \<not> completed c"
  shows "let s' = DroneControl_cancel s
         in (\<forall>c \<in> set (C # commandQueue s).
               promise_store s' (promise c) =
                 (case promise_store s (promise c) of
                    None \<Rightarrow> Some (Rejected (Error ''Command cancelled''))
                  | Some v \<Rightarrow> Some v))
          \<and> (\<forall>p. p \<notin> promise ` set (C # commandQueue s) \<longrightarrow> promise_store s' p = promise_store s p)
          \<and> commandQueue s' = [] \<and> currentCommand s' = None \<and> state s' = IDLE
          \<and> mv_command (movement s') =
              (case model (movement s) of
                 Some pos \<Rightarrow> Some \<lparr>hover = True, angle = 0, speed = 0, altitude = Some (pos_y pos)\<rparr>
               | None \<Rightarrow> mv_command (movement s))
          \<and> executeImmediate cmd s = enqueue cmd s'
          \<and> commandQueue (snd (executeImmediate cmd s)) = [cmd]"
proof -
  have store: "promise_store (DroneControl_cancel s) = cancel_queue (C # commandQueue s) (promise_store s)"
    by (simp add: DroneControl_cancel_fields(4) cur)
  have a: "\<forall>c \<in> set (C # commandQueue s).
               promise_store (DroneControl_cancel s) (promise c) =
                 (case promise_store s (promise c) of
                    None \<Rightarrow> Some (Rejected (Error ''Command cancelled''))
                  | Some v \<Rightarrow> Some v)"
    unfolding store using cons by (intro ballI cancel_queue_all) auto
  have b: "\<forall>p. p \<notin> promise ` set (C # commandQueue s)
              \<longrightarrow> promise_store (DroneControl_cancel s) p = promise_store s p"
    unfolding store by (intro allI impI cancel_queue_other)
  show ?thesis
    unfolding Let_def using a b
    by (simp add: DroneControl_cancel_fields(1-3,5) executeImmediate_def enqueue_def)
qed


lemma example_busy_fields:
  "\<exists>C M. currentCommand example_busy = Some C \<and> commandQueue example_busy = [M]
      \<and> promise C = 0 \<and> promise M = 1 \<and> \<not> completed C \<and> \<not> completed M"
  "promise_store example_busy = (\<lambda>p. None)"
  "model (movement example_busy) = Some \<lparr>pos_x = 0, pos_y = 0, pos_z = 0\<rparr>"
  "state example_busy = RUNNING"
  by (simp_all add: example_busy_def example_vehicle_def command_defs control_defs Let_def fun_eq_iff)

text \<open>The busy controller: both promises are rejected, and the vehicle is told to hover.\<close>

theorem cancel_settles_everything_witness:
  "promise_store (DroneControl_cancel example_busy) 0 = Some (Rejected (Error ''Command cancelled''))
   \<and> promise_store (DroneControl_cancel example_busy) 1 = Some (Rejected (Error ''Command cancelled''))
   \<and> promise_store (DroneControl_cancel example_busy) 2 = None
   \<and> commandQueue (DroneControl_cancel example_busy) = []
   \<and> currentCommand (DroneControl_cancel example_busy) = None
   \<and> state (DroneControl_cancel example_busy) = IDLE
   \<and> mv_command (movement (DroneControl_cancel example_busy)) =
        Some \<lparr>hover = True, angle = 0, speed = 0, altitude = Some 0\<rparr>
   \<and> commandQueue (snd (executeImmediate (new_HoverCommand no_options 2) example_busy)) =
        [new_HoverCommand no_options 2]"
proof -
  obtain C M where f: "currentCommand example_busy = Some C" "commandQueue example_busy = [M]"
      "promise C = 0" "promise M = 1" "\<not> completed C" "\<not> completed M"
    using example_busy_fields(1) by blast
  have cons: "\<forall>c \<in> set (C # commandQueue example_busy).
                promise_store example_busy (promise c) = None \<longrightarrow> \<not> completed c"
    using f by simp
  from cancel_settles_everything [OF f(1) cons, of "new_HoverCommand no_options 2"]
  show ?thesis
    using f by (simp add: Let_def example_busy_fields(2,3) enqueue_def)
qed

text \<open>
  C2 as stated fails. The current command of \<open>example_settled\<close> has resolved its promise 1
  with the result of RotateYaw; \<open>cancel()\<close> leaves it resolved, not cancelled. And with no
  vehicle attached \<open>cancel()\<close> writes no instruction.
\<close>

theorem cancel_keeps_settled_counterexample:
  "map_option promise (currentCommand example_settled) = Some 1
   \<and> promise_store example_settled 1 = Some (Resolved (RotateYawResult 1))
   \<and> promise_store (DroneControl_cancel example_settled) 1 = Some (Resolved (RotateYawResult 1))
   \<and> map_option promise (currentCommand example_detached) = Some 0
   \<and> mv_command (movement (DroneControl_cancel example_detached)) = None"
  by (simp add: example_settled_def example_detached_def example_busy_def example_vehicle_def
        command_defs control_defs Let_def)

section \<open>A fault of update does not leave the tick\<close>

lemma catch_block_current:
  assumes "currentCommand s = Some c"
  shows "catch_block e s =
           (Inr True,
            (notify_error (fst (BaseCommand_fail e c (promise_store s))) e
               ((emit (ConsoleError ''[DroneControl] Command execution error:'' e) s)
                  \<lparr>currentCommand := Some (fst (BaseCommand_fail e c (promise_store s))),
                    promise_store := snd (BaseCommand_fail e c (promise_store s))\<rparr>))
              \<lparr>currentCommand := None\<rparr>)"
  using assms by (simp add: catch_block_def emit_def Let_def split: prod.splits)

lemma notify_error_fields:
  "promise_store (notify_error c e s) = promise_store s"
  "currentCommand (notify_error c e s) = currentCommand s"
  "ConsoleError ''[DroneControl] Command failed:'' e \<in> set (events (notify_error c e s))"
  "onCommandError s \<Longrightarrow> OnCommandError c e \<in> set (events (notify_error c e s))"
  by (simp_all add: notify_error_def emit_def Let_def)

lemma fail_pending:
  "\<not> completed c \<Longrightarrow> P (promise c) = None
     \<Longrightarrow> snd (BaseCommand_fail e c P) (promise c) = Some (Rejected e)"
  by (simp add: BaseCommand_fail_def reject_promise_def)

text \<open>
  C3 (amended). Whatever methods the commands have: when the tick runs (not paused, a
  vehicle attached) and has its current command \<open>c\<close>, either the one it had or the one it
  has just started, and \<open>c.update\<close> throws the fault \<open>e\<close>, leaving the command as \<open>c'\<close> and
  the promise store as \<open>P'\<close>, then the tick returns \<open>true\<close>, the current command is cleared,
  \<open>fail e\<close> has been called on the command, and the error is reported on the console and
  to \<open>onCommandError\<close> when that callback is set. So a command that had not settled is
  rejected with \<open>e\<close>; a command that had settled keeps its settlement.
\<close>

theorem update_fault_is_caught:
  assumes run: "\<not> paused s" "model (movement s) \<noteq> None"
    and start: "(if currentCommand s = None \<and> 0 < length (commandQueue s)
                 then startNextCommand M now s else (None, s)) = (None, s1)"
    and cur: "currentCommand s1 = Some c"
    and thrown: "update_of M delta now (getState s1) c (promise_store s1) = (Inl e, c', P')"
  shows "fst (update_with M delta now s) = Inr True
       \<and> currentCommand (snd (update_with M delta now s)) = None
       \<and> promise_store (snd (update_with M delta now s)) = snd (BaseCommand_fail e c' P')
       \<and> (\<not> completed c' \<and> P' (promise c') = None
            \<longrightarrow> promise_store (snd (update_with M delta now s)) (promise c') = Some (Rejected e))
       \<and> (completed c' \<longrightarrow> promise_store (snd (update_with M delta now s)) = P')
       \<and> ConsoleError ''[DroneControl] Command failed:'' e
            \<in> set (events (snd (update_with M delta now s)))
       \<and> (onCommandError s1
            \<longrightarrow> OnCommandError (fst (BaseCommand_fail e c' P')) e
                  \<in> set (events (snd (update_with M delta now s))))"
proof -
  let ?s2 = "s1\<lparr>currentCommand := Some c', promise_store := P'\<rparr>"
  have tick: "update_with M delta now s = catch_block e ?s2"
    using run start cur thrown by (auto simp add: update_with_def try_block_def Let_def)
  have cb: "catch_block e ?s2 =
           (Inr True,
            (notify_error (fst (BaseCommand_fail e c' P')) e
               ((emit (ConsoleError ''[DroneControl] Command execution error:'' e) ?s2)
                  \<lparr>currentCommand := Some (fst (BaseCommand_fail e c' P')),
                    promise_store := snd (BaseCommand_fail e c' P')\<rparr>))
              \<lparr>currentCommand := None\<rparr>)"
    using catch_block_current [of ?s2 c' e] by simp
  show ?thesis
    unfolding tick cb
    by (simp add: notify_error_fields fail_pending fail_noop emit_def)
qed


text \<open>
  By contrast a fault of \<open>start\<close> at the first \<open>_startNextCommand\<close> of the tick, which is
  outside the \<open>try\<close>, leaves the call; and with the methods of commands.js no fault
  arises at all.
\<close>

lemma start_fault_escapes:
  assumes "\<not> paused s" "model (movement s) \<noteq> None" "currentCommand s = None"
    and "commandQueue s = c # rest"
    and "start_of M now (getState (setState RUNNING (s\<lparr>currentCommand := Some c, commandQueue := rest\<rparr>)))
           c (promise_store s) = (Some e, c', P')"
  shows "fst (update_with M delta now s) = Inl e"
  using assms
  by (auto simp add: update_with_def startNextCommand_def Let_def setState_def emit_def
        split: prod.splits)

lemma startNextCommand_commands_js: "fst (startNextCommand commands_js now s) = None"
  by (simp add: startNextCommand_def commands_js_def Let_def split: list.splits prod.splits)

lemma startNextCommand_no_throw: "startNextCommand commands_js now s \<noteq> (Some e, s')"
  using startNextCommand_commands_js [of now s] by auto

lemma update_of_no_throw: "update_of commands_js delta now ds c P \<noteq> (Inl e, c', P')"
  by (simp add: commands_js_def split: prod.splits)

lemma DroneControl_update_returns: "fst (DroneControl_update delta now s) \<noteq> Inl e"
  unfolding DroneControl_update_def update_with_def try_block_def Let_def
  by (auto simp add: startNextCommand_no_throw update_of_no_throw
        split: option.splits prod.splits sum.splits)

text \<open>The busy controller, whose TakeOff has not settled, with an \<open>update\<close> that throws.\<close>

theorem update_fault_is_caught_witness:
  "fst (update_with throwing_update (1 / 60) 2 example_busy) = Inr True
   \<and> currentCommand (snd (update_with throwing_update (1 / 60) 2 example_busy)) = None
   \<and> promise_store (snd (update_with throwing_update (1 / 60) 2 example_busy)) 0
        = Some (Rejected (Error ''boom''))
   \<and> ConsoleError ''[DroneControl] Command failed:'' (Error ''boom'')
        \<in> set (events (snd (update_with throwing_update (1 / 60) 2 example_busy)))"
proof -
  obtain C M where f: "currentCommand example_busy = Some C" "commandQueue example_busy = [M]"
      "promise C = 0" "promise M = 1" "\<not> completed C" "\<not> completed M"
    using example_busy_fields(1) by blast
  have run: "\<not> paused example_busy" "model (movement example_busy) \<noteq> None"
    by (simp_all add: example_busy_def example_vehicle_def command_defs control_defs Let_def)
  have start: "(if currentCommand example_busy = None \<and> 0 < length (commandQueue example_busy)
                then startNextCommand throwing_update 2 example_busy else (None, example_busy))
               = (None, example_busy)"
    using f by simp
  have thrown: "update_of throwing_update (1 / 60) 2 (getState example_busy) C
                  (promise_store example_busy) = (Inl (Error ''boom''), C, promise_store example_busy)"
    by (simp add: throwing_update_def)
  from update_fault_is_caught [OF run start f(1) thrown]
  show ?thesis
    using f fail_pending [of C "\<lambda>p. None" "Error ''boom''"] by (simp add: example_busy_fields(2))
qed

text \<open>
  C3 as stated fails. After \<open>hover()\<close> the tick starts the Hover, which resolves its
  promise in \<open>start\<close>; when its \<open>update\<close> then throws, the fault is caught and the tick
  returns \<open>true\<close>, but the outcome stays resolved: it is not settled as failed with that
  fault.
\<close>

theorem update_fault_settled_counterexample:
  "fst (update_with throwing_update (1 / 60) 1 example_hover_queued) = Inr True
   \<and> promise_store (snd (update_with throwing_update (1 / 60) 1 example_hover_queued)) 0
        = Some (Resolved (HoverResult \<lparr>pos_x = 0, pos_y = 0, pos_z = 0\<rparr>))
   \<and> promise_store (snd (update_with throwing_update (1 / 60) 1 example_hover_queued)) 0
        \<noteq> Some (Rejected (Error ''boom''))"
  by (simp add: example_hover_queued_def throwing_update_def example_vehicle_def
        command_defs control_defs Let_def)


section \<open>The state Idle\<close>

lemma inv_setState_IDLE: "currentCommand s = None \<Longrightarrow> idle_invariant (setState IDLE s)"
  by (simp add: idle_invariant_def setState_def emit_def Let_def)

lemma inv_startNext: "idle_invariant s \<Longrightarrow> idle_invariant (snd (startNextCommand M now s))"
  by (simp add: idle_invariant_def startNextCommand_def setState_def emit_def Let_def
        split: list.splits prod.splits option.splits)

lemma inv_catch_block: "idle_invariant (snd (catch_block e s))"
  by (simp add: idle_invariant_def catch_block_def emit_def notify_error_def Let_def
        split: option.splits prod.splits)

lemma inv_no_current: "currentCommand s = None \<Longrightarrow> idle_invariant s"
  by (simp add: idle_invariant_def)

lemma inv_not_idle: "state s \<noteq> IDLE \<Longrightarrow> idle_invariant s"
  by (simp add: idle_invariant_def)

lemma tick_unfold:
  assumes "\<not> paused s" "model (movement s) \<noteq> None"
    and "(if currentCommand s = None \<and> 0 < length (commandQueue s)
          then startNextCommand M now s else (None, s)) = (thrown0, s1)"
  shows "update_with M delta now s =
           (case thrown0 of
              Some e \<Rightarrow> (Inl e, s1)
            | None \<Rightarrow>
               (case currentCommand s1 of
                  None \<Rightarrow> (Inr False, if state s1 \<noteq> IDLE then setState IDLE s1 else s1)
                | Some c \<Rightarrow> try_block M delta now c s1))"
  using assms by (auto simp add: update_with_def)

lemma try_block_unfold:
  assumes "update_of M delta now (getState s1) c (promise_store s1) = (r, c', P')"
  shows "try_block M delta now c s1 =
     (case r of
        Inl e \<Rightarrow> catch_block e (s1\<lparr>currentCommand := Some c', promise_store := P'\<rparr>)
      | Inr mc \<Rightarrow>
          (if completed c'
           then (if 0 < length (commandQueue s1)
                 then (case startNextCommand M now
                              ((case error c' of
                                  Some e \<Rightarrow> notify_error c' e
                                     (setMovementCommand mc (s1\<lparr>currentCommand := Some c', promise_store := P'\<rparr>))
                                | None \<Rightarrow> notify_complete c'
                                     (setMovementCommand mc (s1\<lparr>currentCommand := Some c', promise_store := P'\<rparr>)))
                                 \<lparr>currentCommand := None\<rparr>) of
                         (Some e, s6) \<Rightarrow> catch_block e s6
                       | (None, s6) \<Rightarrow> (Inr True, s6))
                 else (Inr True,
                       (case error c' of
                          Some e \<Rightarrow> notify_error c' e
                             (setMovementCommand mc (s1\<lparr>currentCommand := Some c', promise_store := P'\<rparr>))
                        | None \<Rightarrow> notify_complete c'
                             (setMovementCommand mc (s1\<lparr>currentCommand := Some c', promise_store := P'\<rparr>)))
                         \<lparr>currentCommand := None\<rparr>))
           else (Inr True, setMovementCommand mc (s1\<lparr>currentCommand := Some c', promise_store := P'\<rparr>))))"
  using assms
  by (simp add: try_block_def Let_def notify_error_def notify_complete_def emit_def
        setMovementCommand_def split: sum.splits option.splits)

lemma catch_block_not_inactive: "fst (catch_block e s) \<noteq> Inr False"
  by (simp add: catch_block_def Let_def split: option.splits prod.splits)

lemma try_block_not_inactive: "fst (try_block M delta now c s1) \<noteq> Inr False"
proof -
  obtain r c' P' where up: "update_of M delta now (getState s1) c (promise_store s1) = (r, c', P')"
    by (cases "update_of M delta now (getState s1) c (promise_store s1)")
  show ?thesis
    unfolding try_block_unfold [OF up]
    by (simp add: catch_block_not_inactive split: sum.splits prod.splits option.splits)
qed

lemma inv_try_block:
  assumes "state s1 \<noteq> IDLE"
  shows "idle_invariant (snd (try_block M delta now c s1))"
proof -
  obtain r c' P' where up: "update_of M delta now (getState s1) c (promise_store s1) = (r, c', P')"
    by (cases "update_of M delta now (getState s1) c (promise_store s1)")
  have a: "\<And>s. currentCommand s = None \<Longrightarrow> idle_invariant (snd (startNextCommand M now s))"
    by (simp add: inv_startNext inv_no_current)
  have b: "idle_invariant s6"
    if "startNextCommand M now (s\<lparr>currentCommand := None\<rparr>) = (e, s6)" for s e s6
  proof -
    have "idle_invariant (snd (startNextCommand M now (s\<lparr>currentCommand := None\<rparr>)))"
      by (rule a) simp
    with that show ?thesis by simp
  qed
  show ?thesis
    unfolding try_block_unfold [OF up] using assms
    by (auto simp add: inv_catch_block inv_no_current inv_not_idle setMovementCommand_def
          split: sum.splits prod.splits option.splits dest: b)
qed

lemma inv_update_with:
  assumes "idle_invariant s"
  shows "idle_invariant (snd (update_with M delta now s))"
proof (cases "paused s \<or> model (movement s) = None")
  case True
  then show ?thesis using assms by (auto simp add: update_with_def)
next
  case False
  obtain thrown0 s1 where st: "(if currentCommand s = None \<and> 0 < length (commandQueue s)
               then startNextCommand M now s else (None, s)) = (thrown0, s1)"
    by (cases "if currentCommand s = None \<and> 0 < length (commandQueue s)
               then startNextCommand M now s else (None, s)")
  have inv1: "idle_invariant s1"
    using st assms inv_startNext [of s M now] by (auto split: if_splits)
  from False have run: "\<not> paused s" "model (movement s) \<noteq> None" by auto
  show ?thesis
    unfolding tick_unfold [OF run st] using inv1
    by (auto simp add: inv_setState_IDLE inv_try_block idle_invariant_def [of s1]
          split: option.splits)
qed

lemma startNext_sets_current:
  "commandQueue s \<noteq> [] \<Longrightarrow> currentCommand (snd (startNextCommand M now s)) \<noteq> None"
  by (simp add: startNextCommand_def emit_def Let_def split: list.splits prod.splits option.splits)

lemma startNext_keeps_empty:
  "commandQueue s = [] \<Longrightarrow> startNextCommand M now s = (None, s)"
  by (simp add: startNextCommand_def)

lemma inactive_tick_is_idle:
  assumes run: "\<not> paused s" "model (movement s) \<noteq> None"
    and inactive: "fst (update_with M delta now s) = Inr False"
  shows "state (snd (update_with M delta now s)) = IDLE
       \<and> currentCommand (snd (update_with M delta now s)) = None
       \<and> commandQueue (snd (update_with M delta now s)) = []"
proof -
  obtain thrown0 s1 where st: "(if currentCommand s = None \<and> 0 < length (commandQueue s)
               then startNextCommand M now s else (None, s)) = (thrown0, s1)"
    by (cases "if currentCommand s = None \<and> 0 < length (commandQueue s)
               then startNextCommand M now s else (None, s)")
  note tick = tick_unfold [OF run st]
  from inactive have none: "thrown0 = None" "currentCommand s1 = None"
    unfolding tick by (auto simp add: try_block_not_inactive split: option.splits)
  have same: "s1 = s \<and> commandQueue s = []"
  proof (cases "currentCommand s = None \<and> 0 < length (commandQueue s)")
    case True
    with st have "s1 = snd (startNextCommand M now s)" by auto
    with True none(2) startNext_sets_current [of s M now] show ?thesis by auto
  next
    case False
    with st none(2) show ?thesis by auto
  qed
  show ?thesis
    unfolding tick using none same
    by (simp add: setState_def emit_def Let_def)
qed

lemma inv_cancel: "idle_invariant (DroneControl_cancel s)"
  by (simp add: inv_no_current DroneControl_cancel_fields(2))

lemma inv_enqueue: "idle_invariant s \<Longrightarrow> idle_invariant (snd (enqueue c s))"
  by (simp add: idle_invariant_def enqueue_def)

lemma inv_new_promise: "idle_invariant s \<Longrightarrow> idle_invariant (snd (new_promise s))"
  by (simp add: idle_invariant_def new_promise_def)

lemma inv_pause: "idle_invariant s \<Longrightarrow> idle_invariant (pause s)"
  by (simp add: idle_invariant_def pause_def setState_def emit_def setMovementCommand_def Let_def
        split: option.splits)

lemma inv_resume: "idle_invariant s \<Longrightarrow> idle_invariant (resume s)"
  by (simp add: idle_invariant_def resume_def setState_def emit_def Let_def)


lemma inv_intents:
  assumes "idle_invariant s"
  shows "idle_invariant (snd (DroneControl_hover s))"
    and "idle_invariant (snd (takeOff alt opts s))"
    and "idle_invariant (snd (land opts s))"
    and "idle_invariant (snd (moveTo tgt opts s))"
    and "idle_invariant (snd (rotateYaw a opts s))"
    and "idle_invariant (snd (executeImmediate c s))"
  using assms
  by (simp_all add: DroneControl_hover_def takeOff_def land_def moveTo_def rotateYaw_def
        executeImmediate_def Let_def inv_enqueue inv_new_promise inv_cancel split: prod.splits)
     (simp_all add: new_promise_def inv_enqueue inv_cancel idle_invariant_def enqueue_def)

text \<open>
  C4 (amended). The controller's constructor establishes, and every public operation
  (the five intents, \<open>executeImmediate\<close>, \<open>enqueue\<close>, \<open>cancel\<close>, \<open>pause\<close>, \<open>resume\<close> and the
  tick) maintains: in the state Idle there is no current command. There is at most one
  current command, \<open>currentCommand\<close> being one field. The equivalence with an empty queue
  holds after a tick that returns \<open>false\<close> on a controller that is not paused and has a
  vehicle: then the state is Idle, there is no current command and the queue is empty.
\<close>

theorem idle_invariant_maintained:
  "idle_invariant (DroneControl mv)
   \<and> (idle_invariant s \<longrightarrow>
        idle_invariant (snd (DroneControl_hover s))
      \<and> idle_invariant (snd (takeOff alt opts s))
      \<and> idle_invariant (snd (land opts s))
      \<and> idle_invariant (snd (moveTo tgt opts s))
      \<and> idle_invariant (snd (rotateYaw a opts s))
      \<and> idle_invariant (snd (executeImmediate c s))
      \<and> idle_invariant (snd (enqueue c s))
      \<and> idle_invariant (DroneControl_cancel s)
      \<and> idle_invariant (pause s)
      \<and> idle_invariant (resume s)
      \<and> idle_invariant (snd (DroneControl_update delta now s)))
   \<and> (\<not> paused s \<and> model (movement s) \<noteq> None \<and> fst (DroneControl_update delta now s) = Inr False
        \<longrightarrow> state (snd (DroneControl_update delta now s)) = IDLE
          \<and> currentCommand (snd (DroneControl_update delta now s)) = None
          \<and> commandQueue (snd (DroneControl_update delta now s)) = [])"
proof (intro conjI impI)
  show "idle_invariant (DroneControl mv)"
    by (simp add: idle_invariant_def DroneControl_def)
next
  assume "\<not> paused s \<and> model (movement s) \<noteq> None \<and> fst (DroneControl_update delta now s) = Inr False"
  then have h: "\<not> paused s" "model (movement s) \<noteq> None"
      "fst (update_with commands_js delta now s) = Inr False"
    by (simp_all add: DroneControl_update_def)
  from inactive_tick_is_idle [OF h]
  show "state (snd (DroneControl_update delta now s)) = IDLE"
    and "currentCommand (snd (DroneControl_update delta now s)) = None"
    and "commandQueue (snd (DroneControl_update delta now s)) = []"
    by (simp_all add: DroneControl_update_def)
qed (simp_all add: inv_intents inv_enqueue inv_cancel inv_pause inv_resume inv_update_with DroneControl_update_def)

theorem idle_invariant_maintained_witness:
  "idle_invariant example_busy
   \<and> idle_invariant (DroneControl_cancel example_busy)
   \<and> idle_invariant (pause example_busy)
   \<and> idle_invariant (snd (DroneControl_update (1 / 60) 2 example_busy))
   \<and> state (snd (DroneControl_update (1 / 60) 2 example_finished)) = IDLE
   \<and> currentCommand (snd (DroneControl_update (1 / 60) 2 example_finished)) = None
   \<and> commandQueue (snd (DroneControl_update (1 / 60) 2 example_finished)) = []"
proof -
  have a: "idle_invariant example_busy"
    by (simp add: idle_invariant_def example_busy_fields(4))
  have b: "\<not> paused example_finished \<and> model (movement example_finished) \<noteq> None
         \<and> fst (DroneControl_update (1 / 60) 2 example_finished) = Inr False"
    by (simp add: example_finished_def example_vehicle_def command_defs control_defs Let_def)
  from idle_invariant_maintained [of example_vehicle example_busy None no_options
         "\<lparr>arg_x = None, arg_y = None, arg_z = None\<rparr>" 0 "new_HoverCommand no_options 2" "1 / 60" 2]
       idle_invariant_maintained [of example_vehicle example_finished None no_options
         "\<lparr>arg_x = None, arg_y = None, arg_z = None\<rparr>" 0 "new_HoverCommand no_options 2" "1 / 60" 2]
  show ?thesis using a b by simp
qed

text \<open>
  C4 as stated fails in both directions. After \<open>takeOff()\<close> on a new controller the state
  is Idle and the queue is not empty; after the tick that finishes the only command there
  is no current command and the queue is empty, and the state is still Running.
\<close>

theorem idle_iff_counterexample:
  "state (snd (takeOff None no_options (DroneControl example_vehicle))) = IDLE
   \<and> commandQueue (snd (takeOff None no_options (DroneControl example_vehicle))) \<noteq> []
   \<and> state example_finished = RUNNING
   \<and> currentCommand example_finished = None
   \<and> commandQueue example_finished = []"
  by (simp add: example_finished_def example_vehicle_def command_defs control_defs Let_def)

section \<open>isActive\<close>

text \<open>
  C9. \<open>isActive()\<close> is true exactly when there is a current command or the queue is not
  empty. It is true right after each of the five intents, whose command is then the last
  of the queue and not started. And after a \<open>Drone.update\<close> whose tick of the controller
  returned \<open>true\<close>, \<open>isControllerActive()\<close> is true.
\<close>

theorem isActive_iff:
  "(DroneControl_isActive s \<longleftrightarrow> currentCommand s \<noteq> None \<or> commandQueue s \<noteq> [])
   \<and> DroneControl_isActive (snd (DroneControl_hover s))
   \<and> DroneControl_isActive (snd (takeOff alt opts s))
   \<and> DroneControl_isActive (snd (land opts s))
   \<and> DroneControl_isActive (snd (moveTo tgt opts s))
   \<and> DroneControl_isActive (snd (rotateYaw a opts s))
   \<and> startTime (last (commandQueue (snd (DroneControl_hover s)))) = None
   \<and> startTime (last (commandQueue (snd (takeOff alt opts s)))) = None
   \<and> startTime (last (commandQueue (snd (land opts s)))) = None
   \<and> startTime (last (commandQueue (snd (moveTo tgt opts s)))) = None
   \<and> startTime (last (commandQueue (snd (rotateYaw a opts s)))) = None
   \<and> (fst (DroneControl_update delta now (control d)) = Inr True
        \<longrightarrow> isControllerActive (snd (Drone_update apply_movement delta now d)))"
  by (auto simp add: DroneControl_isActive_def DroneControl_hover_def takeOff_def land_def
        moveTo_def rotateYaw_def executeImmediate_def enqueue_def new_promise_def Let_def
        isControllerActive_def Drone_update_def new_HoverCommand_def new_TakeOffCommand_def
        new_LandCommand_def new_MoveToCommand_def new_RotateYawCommand_def BaseCommand_def
        split: prod.splits sum.splits)

theorem isActive_iff_witness:
  "DroneControl_isActive (control example_drone)
   \<and> currentCommand (control example_drone) = None
   \<and> fst (DroneControl_update (1 / 60) 1 (control example_drone)) = Inr True
   \<and> isControllerActive (snd (Drone_update (\<lambda>delta mv. mv) (1 / 60) 1 example_drone))"
  using isActive_iff [of "DroneControl example_vehicle" "Some 1" no_options
          "\<lparr>arg_x = None, arg_y = None, arg_z = None\<rparr>" 0 "1 / 60" 1 example_drone "\<lambda>delta mv. mv"]
  by (simp add: example_drone_def example_vehicle_def command_defs control_defs Let_def)


section \<open>Well-formed controller states\<close>

text \<open>
  The states the public API reaches are well-formed. This is what the statements about
  \<open>cancel\<close> and about the timeout assume of a command and its promise.
\<close>

lemma own_complete: "own_promise_only c P (BaseCommand_complete r c P)"
  by (auto simp add: own_promise_only_def BaseCommand_complete_def resolve_promise_def
        consistent_def split: option.splits)

lemma own_fail: "own_promise_only c P (BaseCommand_fail e c P)"
  by (auto simp add: own_promise_only_def BaseCommand_fail_def reject_promise_def
        consistent_def split: option.splits)

lemma own_refl: "own_promise_only c P (c, P)"
  by (simp add: own_promise_only_def)

lemma own_trans:
  "own_promise_only c P (c1, P1) \<Longrightarrow> own_promise_only c1 P1 cP \<Longrightarrow> own_promise_only c P cP"
  by (auto simp add: own_promise_only_def)

lemma own_fields:
  "own_promise_only c P (c1, P1) \<Longrightarrow> own_promise_only c P (c1\<lparr>variant := v\<rparr>, P1)"
  "own_promise_only c P (c1, P1) \<Longrightarrow> completed c1 = completed c
     \<Longrightarrow> own_promise_only c P (c1\<lparr>startTime := t\<rparr>, P1)"
  by (auto simp add: own_promise_only_def consistent_def)

lemma own_BaseCommand_update: "own_promise_only c P (snd (BaseCommand_update now ds c P))"
  by (simp add: BaseCommand_update_def own_fail own_refl)


lemma own_command_update: "own_promise_only c P (snd (command_update delta now ds c P))"
proof -
  obtain b c1 P1 where bu: "BaseCommand_update now ds c P = (b, c1, P1)"
    by (cases "BaseCommand_update now ds c P")
  with own_BaseCommand_update [of c P now ds] have o1: "own_promise_only c P (c1, P1)" by simp
  have var: "\<And>v. own_promise_only c P (c1\<lparr>variant := v\<rparr>, P1)"
    using o1 by (rule own_fields(1))
  have fin: "\<And>v r. own_promise_only c P (BaseCommand_complete r (c1\<lparr>variant := v\<rparr>) P1)"
    using var own_complete by (metis own_trans prod.collapse)
  show ?thesis
  proof (cases "variant c")
    case (HoverCommand ta)
    then show ?thesis using o1 bu by (simp add: command_update_def HoverCommand_update_def)
  next
    case (TakeOffCommand ta tol sf la)
    then show ?thesis using var fin bu
      by (simp add: command_update_def TakeOffCommand_update_def Let_def split: prod.splits)
  next
    case (LandCommand ga tol sf)
    then show ?thesis using var fin bu
      by (simp add: command_update_def LandCommand_update_def Let_def split: prod.splits)
  next
    case (MoveToCommand m)
    then show ?thesis using var fin bu
      by (simp add: command_update_def MoveToCommand_update_def Let_def split: prod.splits)
  next
    case (RotateYawCommand a)
    then show ?thesis
      by (simp add: command_update_def RotateYawCommand_update_def own_refl)
  qed
qed

lemma own_command_start: "own_promise_only c P (command_start now ds c P)"
proof -
  have o1: "own_promise_only c P (BaseCommand_start now c, P)"
    by (simp add: BaseCommand_start_def own_promise_only_def consistent_def)
  have var: "\<And>v. own_promise_only c P ((BaseCommand_start now c)\<lparr>variant := v\<rparr>, P)"
    using o1 by (rule own_fields(1))
  have fin: "\<And>r. own_promise_only c P (BaseCommand_complete r (BaseCommand_start now c) P)"
    using o1 own_complete by (metis own_trans prod.collapse)
  have finv: "\<And>v r. own_promise_only c P (BaseCommand_complete r ((BaseCommand_start now c)\<lparr>variant := v\<rparr>) P)"
    using var own_complete by (metis own_trans prod.collapse)
  show ?thesis
    using o1 var fin finv
    by (cases "variant c")
       (simp_all add: command_start_def HoverCommand_start_def TakeOffCommand_start_def
          LandCommand_start_def MoveToCommand_start_def RotateYawCommand_start_def Let_def)
qed


lemma well_behaved_commands_js: "well_behaved commands_js"
  using own_command_start own_command_update
  by (simp add: well_behaved_def commands_js_def split: prod.splits) (metis snd_conv)

lemma well_formed_frame:
  assumes "currentCommand s' = currentCommand s" "commandQueue s' = commandQueue s"
    and "promise_store s' = promise_store s" "next_promise s' = next_promise s"
  shows "well_formed s' = well_formed s"
  using assms by (simp add: well_formed_def held_def)

lemma frame_setState:
  "currentCommand (setState st s) = currentCommand s" "commandQueue (setState st s) = commandQueue s"
  "promise_store (setState st s) = promise_store s" "next_promise (setState st s) = next_promise s"
  by (simp_all add: setState_def emit_def Let_def)

lemma frame_notify:
  "currentCommand (notify_error c e s) = currentCommand s" "commandQueue (notify_error c e s) = commandQueue s"
  "promise_store (notify_error c e s) = promise_store s" "next_promise (notify_error c e s) = next_promise s"
  "currentCommand (notify_complete c s) = currentCommand s" "commandQueue (notify_complete c s) = commandQueue s"
  "promise_store (notify_complete c s) = promise_store s" "next_promise (notify_complete c s) = next_promise s"
  "currentCommand (emit ev s) = currentCommand s" "commandQueue (emit ev s) = commandQueue s"
  "promise_store (emit ev s) = promise_store s" "next_promise (emit ev s) = next_promise s"
  "currentCommand (setMovementCommand mc s) = currentCommand s"
  "commandQueue (setMovementCommand mc s) = commandQueue s"
  "promise_store (setMovementCommand mc s) = promise_store s"
  "next_promise (setMovementCommand mc s) = next_promise s"
  by (simp_all add: notify_error_def notify_complete_def emit_def setMovementCommand_def Let_def)

lemma wf_replace_current:
  assumes wf: "well_formed s" and cur: "currentCommand s = Some c"
    and own: "own_promise_only c (promise_store s) (c', P')"
  shows "well_formed (s\<lparr>currentCommand := Some c', promise_store := P'\<rparr>)"
proof -
  from wf cur have d: "promise c \<notin> promise ` set (commandQueue s)" "distinct (map promise (commandQueue s))"
    and c: "promise c < next_promise s" "consistent (promise_store s) c"
    and q: "\<forall>x \<in> set (commandQueue s). promise x < next_promise s \<and> consistent (promise_store s) x"
    by (auto simp add: well_formed_def held_def)
  from own have p: "promise c' = promise c" and other: "\<forall>p. p \<noteq> promise c \<longrightarrow> P' p = promise_store s p"
    and cons: "consistent P' c'"
    using c(2) by (auto simp add: own_promise_only_def)
  have "\<forall>x \<in> set (commandQueue s). consistent P' x"
  proof
    fix x assume x: "x \<in> set (commandQueue s)"
    with d(1) have "promise x \<noteq> promise c" by (metis image_eqI)
    with other q x show "consistent P' x" by (simp add: consistent_def)
  qed
  with d c q p cons show ?thesis
    by (simp add: well_formed_def held_def)
qed

lemma wf_drop_current: "well_formed s \<Longrightarrow> well_formed (s\<lparr>currentCommand := None\<rparr>)"
  by (auto simp add: well_formed_def held_def split: option.splits)

lemma wf_startNext:
  assumes wb: "well_behaved M" and wf: "well_formed s" and cur: "currentCommand s = None"
  shows "well_formed (snd (startNextCommand M now s))"
proof (cases "commandQueue s")
  case Nil
  then show ?thesis using wf by (simp add: startNextCommand_def)
next
  case (Cons c rest)
  let ?s2 = "setState RUNNING (s\<lparr>currentCommand := Some c, commandQueue := rest\<rparr>)"
  obtain thrown c' P' where st: "start_of M now (getState ?s2) c (promise_store ?s2) = (thrown, c', P')"
    by (cases "start_of M now (getState ?s2) c (promise_store ?s2)")
  have wf2: "well_formed ?s2"
    using wf cur Cons
    by (simp add: well_formed_frame [of ?s2 "s\<lparr>currentCommand := Some c, commandQueue := rest\<rparr>"]
          frame_setState)
       (simp add: well_formed_def held_def)
  have own: "own_promise_only c (promise_store ?s2) (c', P')"
    using wb st by (metis well_behaved_def snd_conv)
  have cur2: "currentCommand ?s2 = Some c" by (simp add: frame_setState)
  have wf3: "well_formed (?s2\<lparr>currentCommand := Some c', promise_store := P'\<rparr>)"
    using wf2 cur2 own by (rule wf_replace_current)
  have res: "snd (startNextCommand M now s) =
               (case thrown of
                  Some e \<Rightarrow> ?s2\<lparr>currentCommand := Some c', promise_store := P'\<rparr>
                | None \<Rightarrow> if onCommandStart (?s2\<lparr>currentCommand := Some c', promise_store := P'\<rparr>)
                          then emit (OnCommandStart c') (?s2\<lparr>currentCommand := Some c', promise_store := P'\<rparr>)
                          else ?s2\<lparr>currentCommand := Some c', promise_store := P'\<rparr>)"
    using Cons st by (simp add: startNextCommand_def Let_def split: option.splits)
  show ?thesis
    unfolding res using wf3
    by (auto simp add: well_formed_frame [of "emit ev x" x for ev x] frame_notify split: option.splits)
qed

lemma wf_catch_block: "well_formed s \<Longrightarrow> well_formed (snd (catch_block e s))"
proof (cases "currentCommand s")
  case None
  assume "well_formed s"
  with None show ?thesis
    by (simp add: catch_block_def Let_def frame_notify
          well_formed_frame [of "emit ev x" x for ev x])
next
  case (Some c)
  assume wf: "well_formed s"
  let ?f = "BaseCommand_fail e c (promise_store s)"
  have "well_formed (s\<lparr>currentCommand := Some (fst ?f), promise_store := snd ?f\<rparr>)"
    using wf Some own_fail [of c "promise_store s" e] by (intro wf_replace_current) simp_all
  then have "well_formed ((s\<lparr>currentCommand := Some (fst ?f), promise_store := snd ?f\<rparr>)
                             \<lparr>currentCommand := None\<rparr>)"
    by (rule wf_drop_current)
  moreover have "well_formed (snd (catch_block e s)) =
      well_formed ((s\<lparr>currentCommand := Some (fst ?f), promise_store := snd ?f\<rparr>)
                             \<lparr>currentCommand := None\<rparr>)"
    using Some
    by (intro well_formed_frame)
       (simp_all add: catch_block_def Let_def frame_notify split: prod.splits)
  ultimately show ?thesis by simp
qed


lemma wf_try_block:
  assumes wb: "well_behaved M" and wf: "well_formed s1" and cur: "currentCommand s1 = Some c"
  shows "well_formed (snd (try_block M delta now c s1))"
proof -
  obtain r c' P' where up: "update_of M delta now (getState s1) c (promise_store s1) = (r, c', P')"
    by (cases "update_of M delta now (getState s1) c (promise_store s1)")
  let ?s2 = "s1\<lparr>currentCommand := Some c', promise_store := P'\<rparr>"
  have own: "own_promise_only c (promise_store s1) (c', P')"
    using wb up by (metis well_behaved_def snd_conv)
  have wf2: "well_formed ?s2" using wf cur own by (rule wf_replace_current)
  have wf3: "\<And>mc. well_formed (setMovementCommand mc ?s2)"
    using wf2 by (simp add: well_formed_frame [of "setMovementCommand mc x" x for mc x] frame_notify)
  have wf4: "\<And>mc e. well_formed (notify_error c' e (setMovementCommand mc ?s2))"
    "\<And>mc. well_formed (notify_complete c' (setMovementCommand mc ?s2))"
    using wf3
    by (simp_all add: well_formed_frame [of "notify_error a e x" x for a e x]
          well_formed_frame [of "notify_complete a x" x for a x] frame_notify)
  have wf5: "\<And>mc e. well_formed ((notify_error c' e (setMovementCommand mc ?s2))\<lparr>currentCommand := None\<rparr>)"
    "\<And>mc. well_formed ((notify_complete c' (setMovementCommand mc ?s2))\<lparr>currentCommand := None\<rparr>)"
    using wf4 by (simp_all add: wf_drop_current)
  have wf6: "well_formed s6"
    if "startNextCommand M now (x\<lparr>currentCommand := None\<rparr>) = (e, s6)"
      and "well_formed (x\<lparr>currentCommand := None\<rparr>)" for x e s6
  proof -
    have "well_formed (snd (startNextCommand M now (x\<lparr>currentCommand := None\<rparr>)))"
      using wb that(2) by (rule wf_startNext) simp
    with that(1) show ?thesis by simp
  qed
  show ?thesis
    unfolding try_block_unfold [OF up]
    using wf2 wf3 wf5
    by (auto simp add: wf_catch_block setMovementCommand_def
          split: sum.splits prod.splits option.splits dest!: wf6)
qed


lemma wf_update_with:
  assumes wb: "well_behaved M" and wf: "well_formed s"
  shows "well_formed (snd (update_with M delta now s))"
proof (cases "paused s \<or> model (movement s) = None")
  case True
  then show ?thesis using wf by (auto simp add: update_with_def)
next
  case False
  then have run: "\<not> paused s" "model (movement s) \<noteq> None" by auto
  obtain thrown0 s1 where st: "(if currentCommand s = None \<and> 0 < length (commandQueue s)
               then startNextCommand M now s else (None, s)) = (thrown0, s1)"
    by (cases "if currentCommand s = None \<and> 0 < length (commandQueue s)
               then startNextCommand M now s else (None, s)")
  have wf1: "well_formed s1"
  proof (cases "currentCommand s = None \<and> 0 < length (commandQueue s)")
    case True
    then have "well_formed (snd (startNextCommand M now s))"
      using wb wf by (intro wf_startNext) simp_all
    with True st show ?thesis by simp
  next
    case False
    with st wf show ?thesis by auto
  qed
  have idle: "well_formed (setState IDLE s1)"
    using wf1 by (simp add: well_formed_frame [of "setState st x" x for st x] frame_setState)
  show ?thesis
    unfolding tick_unfold [OF run st] using wf1 idle wb
    by (auto simp add: wf_try_block split: option.splits)
qed

lemma wf_DroneControl: "well_formed (DroneControl mv)"
  by (simp add: well_formed_def held_def DroneControl_def)

lemma wf_cancel: "well_formed (DroneControl_cancel s)"
  by (simp add: well_formed_def held_def DroneControl_cancel_fields)

lemma cancel_next_promise: "next_promise (DroneControl_cancel s) = next_promise s"
  by (simp add: DroneControl_cancel_def Let_def setState_def emit_def setMovementCommand_def
        split: option.splits)

lemma wf_pause: "well_formed s \<Longrightarrow> well_formed (pause s)"
  by (simp add: well_formed_def held_def pause_def Let_def setState_def emit_def
        setMovementCommand_def split: option.splits)

lemma wf_resume: "well_formed s \<Longrightarrow> well_formed (resume s)"
  by (simp add: well_formed_def held_def resume_def Let_def setState_def emit_def)

text \<open>Queueing a command that has just been constructed on a fresh promise.\<close>

lemma wf_enqueue_new:
  assumes wf: "well_formed s" and c: "\<not> completed c"
  shows "well_formed (snd (enqueue (c\<lparr>promise := next_promise s\<rparr>) (snd (new_promise s))))"
proof -
  let ?n = "next_promise s"
  let ?c = "c\<lparr>promise := ?n\<rparr>"
  let ?s' = "snd (enqueue ?c (snd (new_promise s)))"
  let ?P = "(promise_store s)(?n := None)"
  from wf have dist: "distinct (map promise (held s))"
    and lt: "\<forall>x \<in> set (held s). promise x < ?n"
    and cons: "\<forall>x \<in> set (held s). consistent (promise_store s) x"
    by (simp_all add: well_formed_def)
  from lt have fresh: "?n \<notin> promise ` set (held s)" by auto
  have other: "\<forall>x \<in> set (held s). consistent ?P x"
  proof
    fix x assume x: "x \<in> set (held s)"
    with lt have "promise x \<noteq> ?n" by auto
    with cons x show "consistent ?P x" by (simp add: consistent_def)
  qed
  have new: "consistent ?P ?c" using c by (simp add: consistent_def)
  have h: "held ?s' = held s @ [?c]" "promise_store ?s' = ?P" "next_promise ?s' = Suc ?n"
    by (simp_all add: held_def enqueue_def new_promise_def)
  have d': "distinct (map promise (held s @ [?c]))"
    using dist fresh by simp
  have lt': "\<forall>x \<in> set (held s @ [?c]). promise x < Suc ?n"
    using lt by (auto simp add: less_Suc_eq)
  have cons': "\<forall>x \<in> set (held s @ [?c]). consistent ?P x"
    using other new by auto
  show ?thesis
    unfolding well_formed_def h using d' lt' cons' by blast
qed

lemma new_command_shape:
  "new_HoverCommand opts p = (new_HoverCommand opts 0)\<lparr>promise := p\<rparr>"
  "new_TakeOffCommand alt opts p = (new_TakeOffCommand alt opts 0)\<lparr>promise := p\<rparr>"
  "new_LandCommand opts p = (new_LandCommand opts 0)\<lparr>promise := p\<rparr>"
  "new_MoveToCommand tgt opts p = (new_MoveToCommand tgt opts 0)\<lparr>promise := p\<rparr>"
  "new_RotateYawCommand a opts p = (new_RotateYawCommand a opts 0)\<lparr>promise := p\<rparr>"
  "\<not> completed (new_HoverCommand opts 0)" "\<not> completed (new_TakeOffCommand alt opts 0)"
  "\<not> completed (new_LandCommand opts 0)" "\<not> completed (new_MoveToCommand tgt opts 0)"
  "\<not> completed (new_RotateYawCommand a opts 0)"
  by (simp_all add: new_HoverCommand_def new_TakeOffCommand_def new_LandCommand_def
        new_MoveToCommand_def new_RotateYawCommand_def BaseCommand_def)

lemma wf_intents:
  assumes "well_formed s"
  shows "well_formed (snd (takeOff alt opts s))"
    and "well_formed (snd (land opts s))"
    and "well_formed (snd (moveTo tgt opts s))"
    and "well_formed (snd (rotateYaw a opts s))"
    and "well_formed (snd (DroneControl_hover s))"
proof -
  show "well_formed (snd (takeOff alt opts s))"
    using wf_enqueue_new [OF assms new_command_shape(7)]
    by (simp add: takeOff_def new_promise_def new_command_shape(2) [symmetric])
  show "well_formed (snd (land opts s))"
    using wf_enqueue_new [OF assms new_command_shape(8)]
    by (simp add: land_def new_promise_def new_command_shape(3) [symmetric])
  show "well_formed (snd (moveTo tgt opts s))"
    using wf_enqueue_new [OF assms new_command_shape(9)]
    by (simp add: moveTo_def new_promise_def new_command_shape(4) [symmetric])
  show "well_formed (snd (rotateYaw a opts s))"
    using wf_enqueue_new [OF assms new_command_shape(10)]
    by (simp add: rotateYaw_def new_promise_def new_command_shape(5) [symmetric])
  show "well_formed (snd (DroneControl_hover s))"
  proof -
    let ?n = "next_promise s"
    let ?s1 = "snd (new_promise s)"
    let ?c = "new_HoverCommand no_options ?n"
    let ?s' = "snd (DroneControl_hover s)"
    have hov: "?s' = snd (enqueue ?c (DroneControl_cancel ?s1))"
      by (simp add: DroneControl_hover_def executeImmediate_def new_promise_def)
    from assms have "\<forall>x \<in> set (held s). promise x < ?n" by (simp add: well_formed_def)
    then have fresh: "?n \<notin> promise ` set (held s)" by auto
    have held1: "(case currentCommand ?s1 of None \<Rightarrow> commandQueue ?s1 | Some c \<Rightarrow> c # commandQueue ?s1)
                   = held s"
      by (simp add: held_def new_promise_def split: option.splits)
    have "promise_store (DroneControl_cancel ?s1) ?n = promise_store ?s1 ?n"
      unfolding DroneControl_cancel_fields(4) held1 using fresh by (rule cancel_queue_other)
    then have pend: "promise_store (DroneControl_cancel ?s1) ?n = None"
      by (simp add: new_promise_def)
    have h: "held ?s' = [?c]" "promise_store ?s' = promise_store (DroneControl_cancel ?s1)"
      "next_promise ?s' = Suc ?n"
      unfolding hov
      by (simp_all add: held_def enqueue_def DroneControl_cancel_fields cancel_next_promise
            new_promise_def)
    have c: "promise ?c = ?n" "\<not> completed ?c"
      by (simp_all add: new_HoverCommand_def BaseCommand_def)
    show ?thesis
      unfolding well_formed_def h using pend c by (simp add: consistent_def)
  qed
qed


text \<open>
  The constructor gives a well-formed controller (\<open>wf_DroneControl\<close>), and the tick, the
  five intents, \<open>cancel\<close>, \<open>pause\<close> and \<open>resume\<close> keep it well-formed.
\<close>

lemma well_formed_maintained:
  assumes "well_formed s"
  shows "well_formed (snd (DroneControl_update delta now s))"
    and "well_formed (snd (DroneControl_hover s))"
    and "well_formed (snd (takeOff alt opts s))"
    and "well_formed (snd (land opts s))"
    and "well_formed (snd (moveTo tgt opts s))"
    and "well_formed (snd (rotateYaw a opts s))"
    and "well_formed (DroneControl_cancel s)"
    and "well_formed (pause s)"
    and "well_formed (resume s)"
  using assms
  by (simp_all add: DroneControl_update_def wf_update_with well_behaved_commands_js wf_intents
        wf_cancel wf_pause wf_resume)

text \<open>In a well-formed controller a command whose promise is pending is not marked completed.\<close>

lemma well_formed_pending_not_completed:
  assumes "well_formed s" and "currentCommand s = Some C"
  shows "\<forall>c \<in> set (C # commandQueue s). promise_store s (promise c) = None \<longrightarrow> \<not> completed c"
  using assms by (auto simp add: well_formed_def held_def consistent_def)

text \<open>
  \<open>start\<close> and \<open>update\<close> of the five commands cannot settle a command a second time
  either: on a completed command they leave the flag, the error and the store as they are.
\<close>

lemma settled_is_final:
  assumes "completed c"
  shows "completed (fst (command_start now ds c P)) \<and> error (fst (command_start now ds c P)) = error c
           \<and> snd (command_start now ds c P) = P"
    and "completed (fst (snd (command_update delta now ds c P)))
           \<and> error (fst (snd (command_update delta now ds c P))) = error c
           \<and> snd (snd (command_update delta now ds c P)) = P"
  using assms own_command_start [of c P now ds] own_command_update [of c P delta now ds]
  by (simp_all add: own_promise_only_def)

section \<open>Missions\<close>

lemmas mission_defs =
  Mission_def or_default_def settle_promise_def executeWaypoint_def finish_def loop_from_def
  Mission_run_def waypoint_succeeded_def waypoint_failed_def Mission_continue_def
  Mission_delay_elapsed_def Mission_cancel_def Mission_pause_def Mission_resume_def

lemma unsettled_loop_from:
  "m_promise m = None \<Longrightarrow> m_state m \<noteq> M_PENDING
     \<Longrightarrow> unsettled_while_running (fst (loop_from now i m s))"
  by (simp add: unsettled_while_running_def loop_from_def finish_def Let_def split: prod.splits)

lemma unsettled_while_running_maintained:
  "unsettled_while_running (Mission wps args)"
  "unsettled_while_running m \<Longrightarrow> unsettled_while_running (fst (snd (Mission_run now m s)))"
  "unsettled_while_running m \<Longrightarrow> unsettled_while_running (fst (Mission_continue now m s))"
  "unsettled_while_running m \<Longrightarrow> unsettled_while_running (fst (Mission_delay_elapsed now m s))"
  "unsettled_while_running m \<Longrightarrow> unsettled_while_running (fst (Mission_cancel m s))"
  "unsettled_while_running m \<Longrightarrow> unsettled_while_running (fst (Mission_pause m s))"
  "unsettled_while_running m \<Longrightarrow> unsettled_while_running (fst (Mission_resume m s))"
proof -
  show "unsettled_while_running (Mission wps args)"
    by (simp add: unsettled_while_running_def Mission_def)
  show "unsettled_while_running m \<Longrightarrow> unsettled_while_running (fst (snd (Mission_run now m s)))"
    by (auto simp add: Mission_run_def Let_def intro!: unsettled_loop_from)
       (simp add: unsettled_while_running_def)
  show "unsettled_while_running m \<Longrightarrow> unsettled_while_running (fst (Mission_continue now m s))"
    by (auto simp add: Mission_continue_def waypoint_succeeded_def waypoint_failed_def Let_def
          split: suspension.splits option.splits settlement.splits intro!: unsettled_loop_from)
       (auto simp add: unsettled_while_running_def finish_def)
  show "unsettled_while_running m \<Longrightarrow> unsettled_while_running (fst (Mission_delay_elapsed now m s))"
    by (auto simp add: Mission_delay_elapsed_def waypoint_succeeded_def Let_def
          split: suspension.splits intro!: unsettled_loop_from)
       (auto simp add: unsettled_while_running_def)
  show "unsettled_while_running m \<Longrightarrow> unsettled_while_running (fst (Mission_cancel m s))"
    by (simp add: unsettled_while_running_def Mission_cancel_def)
  show "unsettled_while_running m \<Longrightarrow> unsettled_while_running (fst (Mission_pause m s))"
    by (auto simp add: unsettled_while_running_def Mission_pause_def)
  show "unsettled_while_running m \<Longrightarrow> unsettled_while_running (fst (Mission_resume m s))"
    by (auto simp add: unsettled_while_running_def Mission_resume_def)
qed

lemma loop_from_results: "results (fst (loop_from now i m s)) = results m"
  by (simp add: loop_from_def finish_def Let_def split: prod.splits)

lemma loop_from_last:
  assumes "i = length (waypoints m)" and "m_promise m = None"
  shows "loop_from now i m s =
           (m\<lparr>m_state := M_COMPLETED,
              m_promise := Some (Resolved \<lparr>duration = now - num (m_startTime m), mr_results = results m,
                                          waypointsCompleted = length (filter le_success (results m)),
                                          waypointsTotal = length (waypoints m)\<rparr>),
              suspended := Returned\<rparr>, s)"
  using assms by (simp add: loop_from_def finish_def settle_promise_def)

lemma loop_from_dispatch:
  assumes "i < length (waypoints m)" and "\<not> cancelled m"
    and "\<not> now - num (m_startTime m) > mo_timeoutMs (m_options m)"
  shows "suspended (fst (loop_from now i m s)) = fst (executeWaypoint i (waypoints m ! i) s)
       \<and> snd (loop_from now i m s) = snd (executeWaypoint i (waypoints m ! i) s)
       \<and> currentIndex (fst (loop_from now i m s)) = i
       \<and> m_state (fst (loop_from now i m s)) = m_state m"
  using assms by (simp add: loop_from_def Let_def split: prod.splits)

lemma continue_failed:
  assumes "suspended m = AwaitCommand i p \<or> suspended m = AwaitHover i p d"
    and "promise_store s p = Some (Rejected e)"
  shows "Mission_continue now m s = waypoint_failed now i e m s"
  using assms by (auto simp add: Mission_continue_def)

lemma returned_is_final:
  assumes "suspended m = Returned"
  shows "Mission_continue now m s = (m, s)" and "Mission_delay_elapsed now m s = (m, s)"
  using assms by (simp_all add: Mission_continue_def Mission_delay_elapsed_def)

lemma loop_from_cancelled:
  assumes "i < length (waypoints m)" and "cancelled m" and "m_promise m = None"
  shows "loop_from now i m s =
           (m\<lparr>m_state := M_CANCELLED, m_promise := Some (Rejected (Error ''Mission cancelled'')),
              suspended := Returned\<rparr>, s)"
  using assms by (simp add: loop_from_def finish_def settle_promise_def)

lemma loop_from_timed_out:
  assumes "i < length (waypoints m)" and "\<not> cancelled m"
    and "now - num (m_startTime m) > mo_timeoutMs (m_options m)" and "m_promise m = None"
  shows "loop_from now i m s =
           (m\<lparr>m_state := M_FAILED, m_promise := Some (Rejected (Error ''Mission timeout'')),
              suspended := Returned\<rparr>, s)"
  using assms by (simp add: loop_from_def finish_def settle_promise_def)

text \<open>
  C7 (amended). The mission awaits the promise of the controller call of waypoint \<open>i\<close> (for
  a hover waypoint, of \<open>control.hover()\<close>), and the promise is rejected with \<open>e\<close>. When
  \<open>run\<close> is resumed the failure is appended to the results log with \<open>success: false\<close>.
  With \<open>continueOnError\<close> false the mission is Failed, its promise is rejected with \<open>e\<close>,
  \<open>run\<close> has returned and the controller is untouched, and nothing resumes \<open>run\<close> later:
  no further waypoint is dispatched. With \<open>continueOnError\<close> true the loop goes on. When a
  waypoint is left, the mission proceeds to waypoint \<open>i + 1\<close> and dispatches it, unless the
  cancellation flag is set, in which case the mission ends Cancelled, or the overall
  timeout has passed, in which case it ends Failed with "Mission timeout"; in both cases
  the controller is untouched. When \<open>i\<close> was the last waypoint the mission is Completed,
  resolved with the log, the number of successful entries as \<open>waypointsCompleted\<close> and the
  number of waypoints as \<open>waypointsTotal\<close>.
\<close>

theorem waypoint_failure_policy:
  assumes await: "suspended m = AwaitCommand i p \<or> suspended m = AwaitHover i p d"
    and rejected: "promise_store s p = Some (Rejected e)"
    and wf: "unsettled_while_running m"
  shows "(\<not> continueOnError (m_options m) \<longrightarrow>
            results (fst (Mission_continue now m s)) = results m @ [failed_entry i e]
          \<and> m_state (fst (Mission_continue now m s)) = M_FAILED
          \<and> m_promise (fst (Mission_continue now m s)) = Some (Rejected e)
          \<and> suspended (fst (Mission_continue now m s)) = Returned
          \<and> snd (Mission_continue now m s) = s
          \<and> Mission_continue later (fst (Mission_continue now m s)) s'
               = (fst (Mission_continue now m s), s')
          \<and> Mission_delay_elapsed later (fst (Mission_continue now m s)) s'
               = (fst (Mission_continue now m s), s'))
       \<and> (continueOnError (m_options m) \<longrightarrow>
            results (fst (Mission_continue now m s)) = results m @ [failed_entry i e]
          \<and> (i + 1 < length (waypoints m) \<and> \<not> cancelled m
               \<and> \<not> now - num (m_startTime m) > mo_timeoutMs (m_options m)
              \<longrightarrow> suspended (fst (Mission_continue now m s))
                    = fst (executeWaypoint (i + 1) (waypoints m ! (i + 1)) s)
                \<and> snd (Mission_continue now m s)
                    = snd (executeWaypoint (i + 1) (waypoints m ! (i + 1)) s)
                \<and> currentIndex (fst (Mission_continue now m s)) = i + 1)
          \<and> (i + 1 < length (waypoints m) \<and> cancelled m
              \<longrightarrow> m_state (fst (Mission_continue now m s)) = M_CANCELLED
                \<and> m_promise (fst (Mission_continue now m s))
                    = Some (Rejected (Error ''Mission cancelled''))
                \<and> suspended (fst (Mission_continue now m s)) = Returned
                \<and> snd (Mission_continue now m s) = s)
          \<and> (i + 1 < length (waypoints m) \<and> \<not> cancelled m
               \<and> now - num (m_startTime m) > mo_timeoutMs (m_options m)
              \<longrightarrow> m_state (fst (Mission_continue now m s)) = M_FAILED
                \<and> m_promise (fst (Mission_continue now m s))
                    = Some (Rejected (Error ''Mission timeout''))
                \<and> suspended (fst (Mission_continue now m s)) = Returned
                \<and> snd (Mission_continue now m s) = s)
          \<and> (i + 1 = length (waypoints m)
              \<longrightarrow> m_state (fst (Mission_continue now m s)) = M_COMPLETED
                \<and> m_promise (fst (Mission_continue now m s)) =
                     Some (Resolved \<lparr>duration = now - num (m_startTime m),
                                     mr_results = results m @ [failed_entry i e],
                                     waypointsCompleted = length (filter le_success (results m)),
                                     waypointsTotal = length (waypoints m)\<rparr>)))"
proof -
  from await wf have pending: "m_promise m = None"
    by (auto simp add: unsettled_while_running_def)
  let ?m1 = "m\<lparr>results := results m @ [failed_entry i e]\<rparr>"
  let ?m2 = "if onError (m_options m) then ?m1\<lparr>m_events := m_events m @ [WaypointError e i]\<rparr> else ?m1"
  have step: "Mission_continue now m s =
                (if \<not> continueOnError (m_options m) then (finish M_FAILED (Rejected e) ?m2, s)
                 else loop_from now (i + 1) ?m2 s)"
    unfolding continue_failed [OF await rejected]
    by (simp add: waypoint_failed_def failed_entry_def Let_def)
  have stop: "\<not> continueOnError (m_options m) \<Longrightarrow>
          Mission_continue now m s = (finish M_FAILED (Rejected e) ?m2, s)"
    using step by simp
  have go: "continueOnError (m_options m) \<Longrightarrow>
          Mission_continue now m s = loop_from now (i + 1) ?m2 s"
    using step by simp
  have fin: "suspended (finish M_FAILED (Rejected e) ?m2) = Returned"
    by (simp add: finish_def)
  show ?thesis
  proof (intro conjI impI)
    assume c: "\<not> continueOnError (m_options m)"
    show "results (fst (Mission_continue now m s)) = results m @ [failed_entry i e]"
      and "m_state (fst (Mission_continue now m s)) = M_FAILED"
      and "m_promise (fst (Mission_continue now m s)) = Some (Rejected e)"
      and "suspended (fst (Mission_continue now m s)) = Returned"
      and "snd (Mission_continue now m s) = s"
      using pending by (simp_all add: stop [OF c] finish_def settle_promise_def)
    show "Mission_continue later (fst (Mission_continue now m s)) s'
               = (fst (Mission_continue now m s), s')"
      and "Mission_delay_elapsed later (fst (Mission_continue now m s)) s'
               = (fst (Mission_continue now m s), s')"
      using fin by (simp_all add: stop [OF c] returned_is_final)
  next
    assume c: "continueOnError (m_options m)"
    show "results (fst (Mission_continue now m s)) = results m @ [failed_entry i e]"
      by (simp add: go [OF c] loop_from_results)
    {
      assume n: "i + 1 < length (waypoints m) \<and> \<not> cancelled m
               \<and> \<not> now - num (m_startTime m) > mo_timeoutMs (m_options m)"
      have "suspended (fst (loop_from now (i + 1) ?m2 s)) = fst (executeWaypoint (i + 1) (waypoints ?m2 ! (i + 1)) s)
       \<and> snd (loop_from now (i + 1) ?m2 s) = snd (executeWaypoint (i + 1) (waypoints ?m2 ! (i + 1)) s)
       \<and> currentIndex (fst (loop_from now (i + 1) ?m2 s)) = i + 1
       \<and> m_state (fst (loop_from now (i + 1) ?m2 s)) = m_state ?m2"
        using n by (intro loop_from_dispatch) simp_all
      then show "suspended (fst (Mission_continue now m s))
                    = fst (executeWaypoint (i + 1) (waypoints m ! (i + 1)) s)"
        and "snd (Mission_continue now m s)
                    = snd (executeWaypoint (i + 1) (waypoints m ! (i + 1)) s)"
        and "currentIndex (fst (Mission_continue now m s)) = i + 1"
        by (simp_all add: go [OF c])
    }
    {
      assume n: "i + 1 < length (waypoints m) \<and> cancelled m"
      have "loop_from now (i + 1) ?m2 s =
           (?m2\<lparr>m_state := M_CANCELLED, m_promise := Some (Rejected (Error ''Mission cancelled'')),
              suspended := Returned\<rparr>, s)"
        using n pending by (intro loop_from_cancelled) simp_all
      then show "m_state (fst (Mission_continue now m s)) = M_CANCELLED"
        and "m_promise (fst (Mission_continue now m s))
                    = Some (Rejected (Error ''Mission cancelled''))"
        and "suspended (fst (Mission_continue now m s)) = Returned"
        and "snd (Mission_continue now m s) = s"
        by (simp_all add: go [OF c])
    }
    {
      assume n: "i + 1 < length (waypoints m) \<and> \<not> cancelled m
               \<and> now - num (m_startTime m) > mo_timeoutMs (m_options m)"
      have "loop_from now (i + 1) ?m2 s =
           (?m2\<lparr>m_state := M_FAILED, m_promise := Some (Rejected (Error ''Mission timeout'')),
              suspended := Returned\<rparr>, s)"
        using n pending by (intro loop_from_timed_out) simp_all
      then show "m_state (fst (Mission_continue now m s)) = M_FAILED"
        and "m_promise (fst (Mission_continue now m s))
                    = Some (Rejected (Error ''Mission timeout''))"
        and "suspended (fst (Mission_continue now m s)) = Returned"
        and "snd (Mission_continue now m s) = s"
        by (simp_all add: go [OF c])
    }
    {
      assume l: "i + 1 = length (waypoints m)"
      have "loop_from now (i + 1) ?m2 s =
           (?m2\<lparr>m_state := M_COMPLETED,
              m_promise := Some (Resolved \<lparr>duration = now - num (m_startTime ?m2), mr_results = results ?m2,
                                          waypointsCompleted = length (filter le_success (results ?m2)),
                                          waypointsTotal = length (waypoints ?m2)\<rparr>),
              suspended := Returned\<rparr>, s)"
        using l pending by (intro loop_from_last) simp_all
      then show "m_state (fst (Mission_continue now m s)) = M_COMPLETED"
        and "m_promise (fst (Mission_continue now m s)) =
                     Some (Resolved \<lparr>duration = now - num (m_startTime m),
                                     mr_results = results m @ [failed_entry i e],
                                     waypointsCompleted = length (filter le_success (results m)),
                                     waypointsTotal = length (waypoints m)\<rparr>)"
        by (simp_all add: go [OF c] failed_entry_def)
    }
  qed
qed


lemma example_mission_cancelled_fields:
  "suspended (fst example_mission_cancelled) = AwaitCommand 0 0"
  "promise_store (snd example_mission_cancelled) 0 = Some (Rejected (Error ''Command cancelled''))"
  "unsettled_while_running (fst example_mission_cancelled)"
  "\<not> continueOnError (m_options (fst example_mission_cancelled))"
  "results (fst example_mission_cancelled) = []"
  by (simp_all add: unsettled_while_running_def example_mission_cancelled_def
        example_mission_running_def example_args_def moveTo_waypoint_def example_vehicle_def
        mission_defs command_defs control_defs Let_def)

lemma example_tolerant_preempted_fields:
  "suspended (fst example_tolerant_preempted) = AwaitCommand 0 0"
  "promise_store (snd example_tolerant_preempted) 0 = Some (Rejected (Error ''Command cancelled''))"
  "unsettled_while_running (fst example_tolerant_preempted)"
  "continueOnError (m_options (fst example_tolerant_preempted))"
  "results (fst example_tolerant_preempted) = []"
  "waypoints (fst example_tolerant_preempted) = [moveTo_waypoint]"
  "m_startTime (fst example_tolerant_preempted) = Some 0"
  "\<not> cancelled (fst example_tolerant_preempted)"
  by (simp_all add: unsettled_while_running_def example_tolerant_preempted_def tolerant_args_def
        example_tolerant_running_def example_args_def moveTo_waypoint_def example_vehicle_def
        mission_defs command_defs control_defs Let_def)

lemma example_two_cancelled_fields:
  "suspended (fst example_two_cancelled) = AwaitCommand 0 0"
  "promise_store (snd example_two_cancelled) 0 = Some (Rejected (Error ''Command cancelled''))"
  "unsettled_while_running (fst example_two_cancelled)"
  "continueOnError (m_options (fst example_two_cancelled))"
  "cancelled (fst example_two_cancelled)"
  "length (waypoints (fst example_two_cancelled)) = 2"
  by (simp_all add: unsettled_while_running_def example_two_cancelled_def tolerant_args_def
        example_two_running_def example_args_def moveTo_waypoint_def example_vehicle_def
        mission_defs command_defs control_defs Let_def)

text \<open>
  The cancelled mission fails on its only waypoint; the mission with \<open>continueOnError\<close>
  whose MoveTo was preempted completes with 0 of 1 waypoints; the cancelled mission of
  two waypoints with \<open>continueOnError\<close> ends Cancelled.
\<close>

theorem waypoint_failure_policy_witness:
  "m_state (fst (Mission_continue 5 (fst example_mission_cancelled) (snd example_mission_cancelled)))
     = M_FAILED
   \<and> m_promise (fst (Mission_continue 5 (fst example_mission_cancelled) (snd example_mission_cancelled)))
     = Some (Rejected (Error ''Command cancelled''))
   \<and> results (fst (Mission_continue 5 (fst example_mission_cancelled) (snd example_mission_cancelled)))
     = [failed_entry 0 (Error ''Command cancelled'')]
   \<and> snd (Mission_continue 5 (fst example_mission_cancelled) (snd example_mission_cancelled))
     = snd example_mission_cancelled
   \<and> m_state (fst (Mission_continue 5 (fst example_tolerant_preempted) (snd example_tolerant_preempted)))
     = M_COMPLETED
   \<and> m_promise (fst (Mission_continue 5 (fst example_tolerant_preempted) (snd example_tolerant_preempted)))
     = Some (Resolved \<lparr>duration = 5, mr_results = [failed_entry 0 (Error ''Command cancelled'')],
                       waypointsCompleted = 0, waypointsTotal = 1\<rparr>)
   \<and> m_state (fst (Mission_continue 5 (fst example_two_cancelled) (snd example_two_cancelled)))
     = M_CANCELLED
   \<and> snd (Mission_continue 5 (fst example_two_cancelled) (snd example_two_cancelled))
     = snd example_two_cancelled"
  using waypoint_failure_policy [of "fst example_mission_cancelled" 0 0 0 "snd example_mission_cancelled"
          "Error ''Command cancelled''" 5 6 "snd example_mission_cancelled"]
        waypoint_failure_policy [of "fst example_tolerant_preempted" 0 0 0 "snd example_tolerant_preempted"
          "Error ''Command cancelled''" 5 6 "snd example_tolerant_preempted"]
        waypoint_failure_policy [of "fst example_two_cancelled" 0 0 0 "snd example_two_cancelled"
          "Error ''Command cancelled''" 5 6 "snd example_two_cancelled"]
  by (simp add: example_mission_cancelled_fields example_tolerant_preempted_fields
        example_two_cancelled_fields num_def)

text \<open>
  C7 as stated fails. The mission of two waypoints with \<open>continueOnError\<close> awaits its first
  MoveTo. Cancelled through the mission, the MoveTo is rejected, the failure is recorded,
  and the resumed \<open>run\<close> does not proceed to the second waypoint: the mission ends
  Cancelled with the cursor still at 0 and nothing queued. Preempted on the controller
  and resumed after the overall timeout of 300000, it does not proceed either: it ends
  Failed with "Mission timeout". Resumed in time, it proceeds to the second waypoint.
\<close>

theorem waypoint_not_reached_counterexample:
  "continueOnError (m_options (fst example_two_cancelled))
   \<and> suspended (fst example_two_cancelled) = AwaitCommand 0 0
   \<and> promise_store (snd example_two_cancelled) 0 = Some (Rejected (Error ''Command cancelled''))
   \<and> results (fst (Mission_continue 5 (fst example_two_cancelled) (snd example_two_cancelled)))
       = [failed_entry 0 (Error ''Command cancelled'')]
   \<and> m_state (fst (Mission_continue 5 (fst example_two_cancelled) (snd example_two_cancelled)))
       = M_CANCELLED
   \<and> currentIndex (fst (Mission_continue 5 (fst example_two_cancelled) (snd example_two_cancelled)))
       = 0
   \<and> commandQueue (snd (Mission_continue 5 (fst example_two_cancelled) (snd example_two_cancelled)))
       = []
   \<and> suspended (fst example_two_preempted) = AwaitCommand 0 0
   \<and> m_state (fst (Mission_continue 300001 (fst example_two_preempted) (snd example_two_preempted)))
       = M_FAILED
   \<and> m_promise (fst (Mission_continue 300001 (fst example_two_preempted) (snd example_two_preempted)))
       = Some (Rejected (Error ''Mission timeout''))
   \<and> commandQueue (snd (Mission_continue 300001 (fst example_two_preempted) (snd example_two_preempted)))
       = []
   \<and> suspended (fst (Mission_continue 5 (fst example_two_preempted) (snd example_two_preempted)))
       = AwaitCommand 1 1
   \<and> currentIndex (fst (Mission_continue 5 (fst example_two_preempted) (snd example_two_preempted)))
       = 1"
  by (simp add: example_two_cancelled_def example_two_preempted_def example_two_running_def
        tolerant_args_def example_args_def moveTo_waypoint_def example_vehicle_def
        failed_entry_def mission_defs command_defs control_defs Let_def)

text \<open>
  Once the cancellation flag is set no step of \<open>run\<close> touches the controller, so no further
  waypoint is dispatched, and the flag stays set.
\<close>

lemma no_dispatch_when_cancelled:
  assumes "cancelled m"
  shows "snd (loop_from now i m s) = s"
    and "snd (Mission_continue now m s) = s"
    and "snd (Mission_delay_elapsed now m s) = s"
  using assms
  by (simp_all add: loop_from_def Mission_continue_def Mission_delay_elapsed_def
        waypoint_succeeded_def waypoint_failed_def Let_def
        split: suspension.splits option.splits settlement.splits)

lemma cancelled_stays: 
  assumes "cancelled m"
  shows "cancelled (fst (Mission_continue now m s))"
    and "cancelled (fst (Mission_delay_elapsed now m s))"
  using assms
  by (simp_all add: loop_from_def Mission_continue_def Mission_delay_elapsed_def finish_def
        waypoint_succeeded_def waypoint_failed_def Let_def
        split: suspension.splits option.splits settlement.splits)

text \<open>
  C8, evaluated. \<open>mission.cancel()\<close> while the MoveTo of the mission's only waypoint is
  awaited rejects the awaited promise with "Command cancelled"; the resumed \<open>run\<close> takes
  the \<open>catch\<close> branch and ends in the state Failed, not Cancelled. With \<open>continueOnError\<close>
  the same cancelled mission ends in the state Completed.
\<close>

theorem mission_cancel_ends_failed:
  "m_state (fst example_mission_running) = M_RUNNING
   \<and> suspended (fst example_mission_running) = AwaitCommand 0 0
   \<and> cancelled (fst example_mission_cancelled)
   \<and> promise_store (snd example_mission_cancelled) 0 = Some (Rejected (Error ''Command cancelled''))
   \<and> m_state (fst example_mission_after_cancel) = M_FAILED
   \<and> m_promise (fst example_mission_after_cancel) = Some (Rejected (Error ''Command cancelled''))
   \<and> suspended (fst example_mission_after_cancel) = Returned
   \<and> cancelled (fst example_tolerant_cancelled)
   \<and> m_state (fst (Mission_continue 5 (fst example_tolerant_cancelled) (snd example_tolerant_cancelled)))
       = M_COMPLETED
   \<and> suspended (fst (Mission_continue 5 (fst example_tolerant_cancelled) (snd example_tolerant_cancelled)))
       = Returned"
  by (simp add: example_mission_after_cancel_def example_mission_cancelled_def
        example_mission_running_def example_args_def moveTo_waypoint_def example_vehicle_def
        example_tolerant_cancelled_def example_tolerant_running_def tolerant_args_def
        mission_defs command_defs control_defs Let_def)


text \<open>
  C10. \<open>run\<close> on a mission that is not Pending rejects with "Mission already started" and
  changes neither the mission nor the controller. After any call of \<open>run\<close> the mission is
  not Pending, so a second call is rejected; and no operation of the mission makes it
  Pending again.
\<close>

theorem run_only_once:
  "(m_state m \<noteq> M_PENDING \<longrightarrow>
      Mission_run now m s = (Some (Error ''Mission already started''), m, s))
   \<and> m_state (fst (snd (Mission_run now m s))) \<noteq> M_PENDING
   \<and> fst (Mission_run later (fst (snd (Mission_run now m s))) s')
       = Some (Error ''Mission already started'')
   \<and> (m_state m \<noteq> M_PENDING \<longrightarrow>
        m_state (fst (Mission_continue now m s)) \<noteq> M_PENDING
      \<and> m_state (fst (Mission_delay_elapsed now m s)) \<noteq> M_PENDING
      \<and> m_state (fst (Mission_cancel m s)) \<noteq> M_PENDING
      \<and> m_state (fst (Mission_pause m s)) \<noteq> M_PENDING
      \<and> m_state (fst (Mission_resume m s)) \<noteq> M_PENDING)"
proof -
  have loop: "\<And>now i m s. m_state m \<noteq> M_PENDING \<Longrightarrow> m_state (fst (loop_from now i m s)) \<noteq> M_PENDING"
    by (simp add: loop_from_def finish_def Let_def split: prod.splits)
  have ran: "m_state (fst (snd (Mission_run now m s))) \<noteq> M_PENDING"
    by (simp add: Mission_run_def Let_def loop)
  have again: "fst (Mission_run later (fst (snd (Mission_run now m s))) s')
       = Some (Error ''Mission already started'')"
    using ran by (simp add: Mission_run_def [of later])
  have steps: "m_state (fst (Mission_continue now m s)) \<noteq> M_PENDING
      \<and> m_state (fst (Mission_delay_elapsed now m s)) \<noteq> M_PENDING
      \<and> m_state (fst (Mission_cancel m s)) \<noteq> M_PENDING
      \<and> m_state (fst (Mission_pause m s)) \<noteq> M_PENDING
      \<and> m_state (fst (Mission_resume m s)) \<noteq> M_PENDING" if "m_state m \<noteq> M_PENDING"
    using that
    by (simp add: Mission_continue_def Mission_delay_elapsed_def waypoint_succeeded_def
          waypoint_failed_def Mission_cancel_def Mission_pause_def Mission_resume_def
          Let_def loop finish_def
          split: suspension.splits option.splits settlement.splits)
  show ?thesis
    using ran again steps by (simp add: Mission_run_def)
qed

theorem run_only_once_witness:
  "m_state (fst example_mission_running) = M_RUNNING
   \<and> Mission_run 7 (fst example_mission_running) (snd example_mission_running)
       = (Some (Error ''Mission already started''), fst example_mission_running,
          snd example_mission_running)"
  using run_only_once [of "fst example_mission_running" 7 "snd example_mission_running" 8
          "snd example_mission_running"]
  by (simp add: example_mission_running_def example_args_def moveTo_waypoint_def example_vehicle_def
        mission_defs command_defs control_defs Let_def)



end
